theory Spec2Isabelle
  imports Main
begin

section \<open>The TLS server of Chapter09/tls-server.c\<close>

text \<open>
  The program is a sequence of calls into the OpenSSL library, with the control flow
  decided by what each call returns and by the state of the library's error queue.
  The library is not part of the program: every answer it gives is taken from an
  environment, one named field per call site, and the theorems quantify over the
  environment. What the program does is recorded as a trace of events: the library
  calls it makes, with their arguments, and the text it prints.

  A call that can fail answers with its return value and with the entries it puts on
  the library's error queue, also when it succeeds. The calls the program does not
  check (\<open>SSL_CTX_set_mode\<close>, \<open>BIO_push\<close>, \<open>BIO_get_ssl\<close>, \<open>SSL_get_shutdown\<close>,
  \<open>SSL_get_error\<close>, \<open>malloc\<close>, \<open>free\<close>) leave the queue alone. The queue is a list;
  the bound the library puts on its length plays no part. An \<open>assert\<close> that fails
  aborts the process. A blocking call returns as long as the environment has an answer
  for it; the loops run over the answers the environment holds, and a run that has used
  them up is waiting.

  The program neither ignores nor handles \<open>SIGPIPE\<close>. A call that sends on the socket
  of a connection (the handshake, the write, the shutdown and the freeing of the
  channel, which sends the close notification when none has been sent) ends the process
  when the peer has reset the connection: the environment says in which of these calls,
  if in any, that happens.
\<close>

unbundle bit_operations_syntax

subsection \<open>Data\<close>

text \<open>An entry of the library's error queue. The queue never holds the code 0, which
  \<open>ERR_peek_error\<close> keeps for the empty queue; the model returns an option there.\<close>

datatype ossl_error = OsslError nat

text \<open>A \<open>FILE*\<close>; the parameter \<open>error_stream\<close> may be \<open>NULL\<close> and is a \<open>stream option\<close>.\<close>

datatype stream = Stderr | OtherStream nat

text \<open>An argument of a printf format: a \<open>char*\<close> (which may be \<open>NULL\<close>) or an int.\<close>

datatype arg = Str "string option" | Num int

datatype bio = accept_bio | ssl_bio

datatype lib_call =
    SSL_CTX_new
  | SSL_CTX_use_PrivateKey_file "string option"
  | SSL_CTX_use_certificate_chain_file "string option"
  | SSL_CTX_check_private_key
  | SSL_CTX_set_mode
  | SSL_CTX_free
  | BIO_new_accept "string option"
  | BIO_do_accept
  | BIO_pop
  | BIO_new_ssl
  | BIO_push
  | BIO_free_all bio
  | BIO_do_handshake
  | BIO_get_ssl
  | SSL_get_shutdown
  | BIO_get_line nat
  | SSL_get_error int
  | BIO_write string int
  | BIO_ssl_shutdown
  | malloc nat
  | free

datatype event =
    Printf string "arg list"
  | Fwrite string
  | Fprintf stream string "arg list"
  | ERR_print_errors_fp stream "ossl_error list"
  | Call lib_call

text \<open>The observable state: the events so far and the library's pending error queue.\<close>

record world =
  trace :: "event list"
  queue :: "ossl_error list"

text \<open>How a function ends: it returns a value, an \<open>assert\<close> fails and the process is
  aborted, a signal raised inside a library call ends the process, or it is blocked in
  a library call for which the environment holds no further answer (the peer has sent
  nothing more, no further client connects).\<close>

datatype result = Return int | Abort | Killed | Waiting

text \<open>The calls of the handler that send on the socket.\<close>

datatype sending_call = InHandshake | InWrite | InShutdown | InFree

text \<open>What a library call answers: its return value (for a call returning a pointer,
  whether the pointer is not \<open>NULL\<close>) and the entries it puts on the error queue.\<close>

type_synonym outcome = "int \<times> ossl_error list"
type_synonym alloc = "bool \<times> ossl_error list"

text \<open>One pass of the read loop: the flags \<open>SSL_get_shutdown\<close> returns at the loop test,
  then what \<open>BIO_get_line\<close> returns and the bytes it stored in \<open>in_buf\<close> in front of the
  terminating NUL, the entries it raised, and what \<open>SSL_get_error\<close> says of a return
  value that is not positive.\<close>

record read_env =
  shutdown_flags :: int
  nbytes_read :: int
  in_buf :: string
  read_raised :: "ossl_error list"
  ssl_error :: int

text \<open>One connection in the handler: whether \<open>malloc\<close> gave a buffer, the handshake,
  \<open>BIO_get_ssl\<close> (its return value and whether it set \<open>ssl\<close>), the reads, the write, the
  shutdown (\<open>BIO_ssl_shutdown\<close> returns nothing: the value is the status of the shutdown
  inside it, which the program cannot see) and what freeing the channel raises. The
  other fields say what a call answers when it returns; \<open>sigpipe\<close> names the sending
  call, if any, that does not return because \<open>SIGPIPE\<close> ends the process in it.\<close>

record handler_env =
  malloc_in_buf :: bool
  do_handshake :: outcome
  get_ssl :: "int \<times> bool"
  reads :: "read_env list"
  bio_write :: outcome
  ssl_shutdown :: outcome
  free_ssl_bio :: "ossl_error list"
  sigpipe :: "sending_call option"

text \<open>One pass of the accept loop.\<close>

record conn_env =
  do_accept :: outcome
  pop :: alloc
  new_ssl :: alloc
  handler :: handler_env

text \<open>The calls of \<open>run_tls_server\<close> outside its loop; \<open>do_bind\<close> is the first
  \<open>BIO_do_accept\<close>, which binds and listens.\<close>

record setup_env =
  ctx_new :: alloc
  use_PrivateKey_file :: outcome
  use_certificate_chain_file :: outcome
  check_private_key :: outcome
  new_accept :: alloc
  do_bind :: outcome
  free_accept_bio :: "ossl_error list"
  ctx_free :: "ossl_error list"

subsection \<open>Constants of the program and of the library's headers\<close>

definition BUF_SIZE :: nat where
  "BUF_SIZE = 16 * 1024"

definition SSL_RECEIVED_SHUTDOWN :: int where
  "SSL_RECEIVED_SHUTDOWN = 2"

definition SSL_ERROR_ZERO_RETURN :: int where
  "SSL_ERROR_ZERO_RETURN = 6"

definition CR :: char where
  "CR = CHR 0x0D"

definition LF :: char where
  "LF = CHR 0x0A"

definition NUL :: char where
  "NUL = CHR 0x00"

definition response :: string where
  "response =
     ''HTTP/1.0 200 OK'' @ [CR, LF] @
     ''Content-type: text/plain'' @ [CR, LF] @
     ''Connection: close'' @ [CR, LF] @
     ''Server: Example TLS server'' @ [CR, LF] @
     [CR, LF] @
     ''Hello from the TLS server!'' @ [LF]"

definition response_length :: int where
  "response_length = int (length response)"

subsection \<open>Primitives\<close>

definition emit :: "event \<Rightarrow> world \<Rightarrow> world" where
  "emit e w = w\<lparr>trace := trace w @ [e]\<rparr>"

text \<open>A library call: the call is recorded and the entries it raised are queued. The
  one call of the program that empties the queue before its own work is
  \<open>SSL_CTX_use_certificate_chain_file\<close>; the model puts \<open>ERR_clear_error\<close> in front of it.\<close>

definition lib :: "lib_call \<Rightarrow> ossl_error list \<Rightarrow> world \<Rightarrow> world" where
  "lib c errs w = w\<lparr>trace := trace w @ [Call c], queue := queue w @ errs\<rparr>"

definition ERR_clear_error :: "world \<Rightarrow> world" where
  "ERR_clear_error w = w\<lparr>queue := []\<rparr>"

definition ERR_peek_error :: "world \<Rightarrow> ossl_error option" where
  "ERR_peek_error w = (case queue w of [] \<Rightarrow> None | e # _ \<Rightarrow> Some e)"

text \<open>\<open>if (error_stream) fprintf(error_stream, ...)\<close>\<close>

definition report :: "stream option \<Rightarrow> string \<Rightarrow> arg list \<Rightarrow> world \<Rightarrow> world" where
  "report error_stream fmt args w =
     (case error_stream of None \<Rightarrow> w | Some s \<Rightarrow> emit (Fprintf s fmt args) w)"

text \<open>The block that ends both functions and the failed accept:
  \<open>if (error_stream) { fprintf(...); ERR_print_errors_fp(error_stream); } ERR_clear_error();\<close>.
  \<open>ERR_print_errors_fp\<close> prints the whole queue and empties it.\<close>

definition drain_errors :: "stream option \<Rightarrow> world \<Rightarrow> world" where
  "drain_errors error_stream w =
     ERR_clear_error
       (case error_stream of
          None \<Rightarrow> w
        | Some s \<Rightarrow>
            (emit (ERR_print_errors_fp s (queue w))
               (emit (Fprintf s ''Errors from the OpenSSL error queue:\<newline>'' []) w))
              \<lparr>queue := []\<rparr>)"

text \<open>The contents of a buffer read as a C string: the bytes in front of the first NUL.\<close>

definition c_str :: "string \<Rightarrow> string" where
  "c_str buf = takeWhile (\<lambda>c. c \<noteq> NUL) buf"

text \<open>\<open>!strcmp(buf, s)\<close> for a literal \<open>s\<close>.\<close>

definition strcmp_eq :: "string \<Rightarrow> string \<Rightarrow> bool" where
  "strcmp_eq buf s = (c_str buf = s)"

subsection \<open>handle_accepted_connection\<close>

text \<open>The loop \<open>while ((SSL_get_shutdown(ssl) & SSL_RECEIVED_SHUTDOWN) != SSL_RECEIVED_SHUTDOWN)\<close>:
  it ends at its test or at a \<open>break\<close> (\<open>Finished\<close>), leaves through \<open>goto failure\<close>
  (\<open>ReadFailed\<close>), or has used up the reads of the environment (\<open>NeedInput\<close>).\<close>

datatype loop_exit = Finished | ReadFailed | NeedInput

fun read_loop :: "stream option \<Rightarrow> read_env list \<Rightarrow> world \<Rightarrow> loop_exit \<times> world" where
  "read_loop error_stream [] w = (NeedInput, w)"
| "read_loop error_stream (r # rs) w =
     (let w1 = lib SSL_get_shutdown [] w in
      if (shutdown_flags r AND SSL_RECEIVED_SHUTDOWN) = SSL_RECEIVED_SHUTDOWN
      then (Finished, w1)
      else
        let w2 = lib (BIO_get_line BUF_SIZE) (read_raised r) w1 in
        if nbytes_read r \<le> 0 then
          let w3 = lib (SSL_get_error (nbytes_read r)) [] w2 in
          if ssl_error r = SSL_ERROR_ZERO_RETURN then (Finished, w3)
          else (ReadFailed,
                report error_stream ''Error %i while reading data from the client\<newline>''
                  [Num (ssl_error r)] w3)
        else
          let w3 = emit (Fwrite (take (nat (nbytes_read r)) (in_buf r))) w2 in
          if strcmp_eq (in_buf r) [CR, LF] \<or> strcmp_eq (in_buf r) [LF] then (Finished, w3)
          else read_loop error_stream rs w3)"

text \<open>The labels \<open>failure:\<close> and \<open>cleanup:\<close>; \<open>exit_code\<close> is 1 when entered through
  \<open>failure:\<close> and 0 otherwise. The caller has asserted that \<open>ssl_bio\<close> is not \<open>NULL\<close>.
  \<open>BIO_free_all\<close> sends on the socket and may not return.\<close>

definition handler_cleanup :: "stream option \<Rightarrow> handler_env \<Rightarrow> int \<Rightarrow> world \<Rightarrow> result \<times> world" where
  "handler_cleanup error_stream env exit_code w =
     (let w1 = lib (BIO_free_all ssl_bio) (free_ssl_bio env) w in
      if sigpipe env = Some InFree then (Killed, w1)
      else
        let w2 = lib free [] w1
        in case ERR_peek_error w2 of
             None \<Rightarrow> (Return exit_code, w2)
           | Some _ \<Rightarrow> (Return 1, drain_errors error_stream w2))"

definition handle_accepted_connection :: "stream option \<Rightarrow> handler_env \<Rightarrow> world \<Rightarrow> result \<times> world" where
  "handle_accepted_connection error_stream env w =
     (let w1 = lib (malloc BUF_SIZE) [] w in
      if \<not> malloc_in_buf env then (Abort, w1)
      else
        let w2 = ERR_clear_error w1;
            w3 = lib BIO_do_handshake (snd (do_handshake env)) w2
        in
        if sigpipe env = Some InHandshake then (Killed, w3)
        else if fst (do_handshake env) \<le> 0 then
          handler_cleanup error_stream env 1
            (report error_stream ''TLS handshaking error\<newline>'' [] w3)
        else
          let w4 = lib BIO_get_ssl [] w3 in
          if fst (get_ssl env) \<noteq> 1 \<or> \<not> snd (get_ssl env) then (Abort, w4)
          else
            case read_loop error_stream (reads env)
                   (emit (Printf ''*** Receiving from the client:\<newline>'' []) w4) of
              (NeedInput, w5) \<Rightarrow> (Waiting, w5)
            | (ReadFailed, w5) \<Rightarrow> handler_cleanup error_stream env 1 w5
            | (Finished, w5) \<Rightarrow>
                let w6 = emit (Printf ''*** Receiving from the client finished\<newline>'' []) w5;
                    w7 = emit (Printf ''*** Sending to the client:\<newline>'' []) w6;
                    w8 = emit (Printf ''%s'' [Str (Some response)]) w7;
                    w9 = lib (BIO_write response response_length) (snd (bio_write env)) w8
                in
                if sigpipe env = Some InWrite then (Killed, w9)
                else if fst (bio_write env) \<noteq> response_length then
                  handler_cleanup error_stream env 1
                    (report error_stream ''Could not send data all to the client\<newline>'' [] w9)
                else
                  let w10 = emit (Printf ''*** Sending to the client finished\<newline>'' []) w9;
                      w11 = lib BIO_ssl_shutdown (snd (ssl_shutdown env)) w10
                  in
                  if sigpipe env = Some InShutdown then (Killed, w11)
                  else handler_cleanup error_stream env 0 w11)"

subsection \<open>run_tls_server\<close>

definition listening_banner :: "string option \<Rightarrow> world \<Rightarrow> world" where
  "listening_banner port w =
     emit (Printf ''\<newline>'' [])
       (emit (Printf ''*** Listening on port %s\<newline>'' [Str port])
          (emit (Printf ''\<newline>'' []) w))"

text \<open>One pass of the body of \<open>while (1)\<close>. \<open>Return 0\<close> stands for reaching the end of
  the body (or its \<open>continue\<close>): the value \<open>handle_accepted_connection\<close> returns is dropped.\<close>

definition iteration :: "stream option \<Rightarrow> string option \<Rightarrow> conn_env \<Rightarrow> world \<Rightarrow> result \<times> world" where
  "iteration error_stream port c w =
     (let w1 = listening_banner port w;
          w2 = lib BIO_do_accept (snd (do_accept c)) w1
      in
      if fst (do_accept c) \<le> 0 then
        let w3 = report error_stream ''Error when trying to accept connection\<newline>'' [] w2
        in (Return 0,
            (case ERR_peek_error w3 of
               None \<Rightarrow> w3
             | Some _ \<Rightarrow> drain_errors error_stream w3))
      else
        let w3 = lib BIO_pop (snd (pop c)) w2 in
        if \<not> fst (pop c) then (Abort, w3)
        else
          let w4 = lib BIO_new_ssl (snd (new_ssl c)) w3 in
          if \<not> fst (new_ssl c) then (Abort, w4)
          else
            let w5 = lib BIO_push [] w4 in
            case handle_accepted_connection error_stream (handler c) w5 of
              (Return _, w6) \<Rightarrow> (Return 0, w6)
            | (Abort, w6) \<Rightarrow> (Abort, w6)
            | (Killed, w6) \<Rightarrow> (Killed, w6)
            | (Waiting, w6) \<Rightarrow> (Waiting, w6))"

text \<open>\<open>while (1)\<close> over the connections the environment holds. When they are used up the
  server has printed its banner and waits in \<open>BIO_do_accept\<close>. No equation returns:
  the loop has no \<open>break\<close>.\<close>

fun accept_loop :: "stream option \<Rightarrow> string option \<Rightarrow> conn_env list \<Rightarrow> world \<Rightarrow> result \<times> world" where
  "accept_loop error_stream port [] w = (Waiting, listening_banner port w)"
| "accept_loop error_stream port (c # cs) w =
     (case iteration error_stream port c w of
        (Return _, w') \<Rightarrow> accept_loop error_stream port cs w'
      | (Abort, w') \<Rightarrow> (Abort, w')
      | (Killed, w') \<Rightarrow> (Killed, w')
      | (Waiting, w') \<Rightarrow> (Waiting, w'))"

text \<open>The labels \<open>failure:\<close> and \<open>cleanup:\<close> of \<open>run_tls_server\<close>; \<open>ctx\<close> is not
  \<open>NULL\<close> whenever they are reached, \<open>accept_bio\<close> only after \<open>BIO_new_accept\<close>.\<close>

definition server_cleanup :: "stream option \<Rightarrow> setup_env \<Rightarrow> bool \<Rightarrow> int \<Rightarrow> world \<Rightarrow> result \<times> world" where
  "server_cleanup error_stream env have_accept_bio exit_code w =
     (let w1 = (if have_accept_bio then lib (BIO_free_all accept_bio) (free_accept_bio env) w else w);
          w2 = lib SSL_CTX_free (ctx_free env) w1
      in case ERR_peek_error w2 of
           None \<Rightarrow> (Return exit_code, w2)
         | Some _ \<Rightarrow> (Return 1, drain_errors error_stream w2))"

definition run_tls_server ::
  "string option \<Rightarrow> string option \<Rightarrow> string option \<Rightarrow> stream option \<Rightarrow>
   setup_env \<Rightarrow> conn_env list \<Rightarrow> world \<Rightarrow> result \<times> world" where
  "run_tls_server port server_keypair_fname server_cert_chain_fname error_stream env conns w =
     (let w1 = ERR_clear_error w;
          w2 = lib SSL_CTX_new (snd (ctx_new env)) w1
      in
      if \<not> fst (ctx_new env) then (Abort, w2)
      else
        let w3 = lib (SSL_CTX_use_PrivateKey_file server_keypair_fname)
                   (snd (use_PrivateKey_file env)) w2
        in
        if fst (use_PrivateKey_file env) \<le> 0 then
          server_cleanup error_stream env False 1
            (report error_stream ''Could not load server keypair from file %s\<newline>''
               [Str server_keypair_fname] w3)
        else
          let w4 = lib (SSL_CTX_use_certificate_chain_file server_cert_chain_fname)
                     (snd (use_certificate_chain_file env)) (ERR_clear_error w3)
          in
          if fst (use_certificate_chain_file env) \<le> 0 then
            server_cleanup error_stream env False 1
              (report error_stream ''Could not load server certificate chain from file %s\<newline>''
                 [Str server_cert_chain_fname] w4)
          else
            let w5 = lib SSL_CTX_check_private_key (snd (check_private_key env)) w4 in
            if fst (check_private_key env) \<le> 0 then
              server_cleanup error_stream env False 1
                (report error_stream ''Server keypair does not match server certificate\<newline>'' [] w5)
            else
              let w6 = lib SSL_CTX_set_mode [] w5;
                  w7 = lib (BIO_new_accept port) (snd (new_accept env)) w6
              in
              if \<not> fst (new_accept env) then (Abort, w7)
              else
                let w8 = lib BIO_do_accept (snd (do_bind env)) w7 in
                if fst (do_bind env) \<le> 0 then
                  server_cleanup error_stream env True 1
                    (report error_stream
                       ''Could not bind to port %s and start listening for incoming TCP connections\<newline>''
                       [Str port] w8)
                else
                  case ERR_peek_error w8 of
                    Some _ \<Rightarrow>
                      server_cleanup error_stream env True 1
                        (report error_stream ''Unexpected error during TLS server setup\<newline>'' [] w8)
                  | None \<Rightarrow> accept_loop error_stream port conns w8)"

subsection \<open>main\<close>

text \<open>\<open>argv[i]\<close>: the \<open>argc\<close> arguments are followed by \<open>NULL\<close>.\<close>

definition argv_at :: "string list \<Rightarrow> nat \<Rightarrow> string option" where
  "argv_at argv i = (if i < length argv then Some (argv ! i) else None)"

definition usage :: string where
  "usage = ''Usage: %s PORT SERVER_KEYPAIR_FILE SERVER_CERT_CHAIN_FILE\<newline>''"

definition main :: "string list \<Rightarrow> setup_env \<Rightarrow> conn_env list \<Rightarrow> world \<Rightarrow> result \<times> world" where
  "main argv env conns w =
     (let argc = int (length argv) in
      if argc \<noteq> 3 \<and> argc \<noteq> 4 then
        (Return 1, emit (Fprintf Stderr usage [Str (argv_at argv 0)]) w)
      else
        case run_tls_server (argv_at argv 1) (argv_at argv 2) (argv_at argv 3) (Some Stderr)
               env conns w of
          (Return err, w1) \<Rightarrow>
            if err \<noteq> 0 then (Return 1, emit (Fprintf Stderr ''TLS communication failed\<newline>'' []) w1)
            else (Return 0, emit (Fprintf Stderr ''TLS communication succeeded\<newline>'' []) w1)
        | (Abort, w1) \<Rightarrow> (Abort, w1)
        | (Killed, w1) \<Rightarrow> (Killed, w1)
        | (Waiting, w1) \<Rightarrow> (Waiting, w1))"

text \<open>The library calls of a trace, in order.\<close>

fun calls :: "event list \<Rightarrow> lib_call list" where
  "calls [] = []"
| "calls (Call c # es) = c # calls es"
| "calls (_ # es) = calls es"

text \<open>The queue entries a trace has printed.\<close>

fun printed_errors :: "event list \<Rightarrow> ossl_error list" where
  "printed_errors [] = []"
| "printed_errors (ERR_print_errors_fp s q # es) = q @ printed_errors es"
| "printed_errors (_ # es) = printed_errors es"

definition init :: world where
  "init = \<lparr>trace = [], queue = []\<rparr>"

subsection \<open>What the blocks print, and the read loop seen from outside\<close>

text \<open>The events of \<open>if (error_stream) fprintf(error_stream, fmt, ...)\<close>.\<close>

definition report_events :: "stream option \<Rightarrow> string \<Rightarrow> arg list \<Rightarrow> event list" where
  "report_events error_stream fmt args =
     (case error_stream of None \<Rightarrow> [] | Some s \<Rightarrow> [Fprintf s fmt args])"

text \<open>The events of draining a queue that holds \<open>q\<close>.\<close>

definition drain_events :: "stream option \<Rightarrow> ossl_error list \<Rightarrow> event list" where
  "drain_events error_stream q =
     (case error_stream of
        None \<Rightarrow> []
      | Some s \<Rightarrow> [Fprintf s ''Errors from the OpenSSL error queue:\<newline>'' [], ERR_print_errors_fp s q])"

text \<open>The events of the handler's cleanup when the queue holds \<open>q\<close> on entry.\<close>

definition cleanup_events :: "stream option \<Rightarrow> handler_env \<Rightarrow> ossl_error list \<Rightarrow> event list" where
  "cleanup_events error_stream env q =
     Call (BIO_free_all ssl_bio) #
     (if sigpipe env = Some InFree then []
      else Call free #
        (if q @ free_ssl_bio env = [] then []
         else drain_events error_stream (q @ free_ssl_bio env)))"

text \<open>How the read loop ends on a script, what it emits and what it leaves on the error
  queue: the three components of a run of \<open>read_loop\<close> from the empty state.\<close>

definition read_exit :: "read_env list \<Rightarrow> loop_exit" where
  "read_exit rs = fst (read_loop None rs init)"

definition read_events :: "stream option \<Rightarrow> read_env list \<Rightarrow> event list" where
  "read_events error_stream rs = trace (snd (read_loop error_stream rs init))"

definition read_errors :: "read_env list \<Rightarrow> ossl_error list" where
  "read_errors rs = queue (snd (read_loop None rs init))"

text \<open>The calls that write to the channel.\<close>

definition is_write :: "lib_call \<Rightarrow> bool" where
  "is_write c = (case c of BIO_write _ _ \<Rightarrow> True | _ \<Rightarrow> False)"

subsection \<open>Example environments\<close>

text \<open>A client that sends a bare newline at once, a connection on which every call
  succeeds and leaves the error queue alone, and a server set-up of the same kind.\<close>

definition client_newline :: read_env where
  "client_newline =
     \<lparr>shutdown_flags = 0, nbytes_read = 1, in_buf = [LF], read_raised = [], ssl_error = 0\<rparr>"

definition good_handler :: handler_env where
  "good_handler =
     \<lparr>malloc_in_buf = True, do_handshake = (1, []), get_ssl = (1, True),
      reads = [client_newline], bio_write = (119, []), ssl_shutdown = (1, []),
      free_ssl_bio = [], sigpipe = None\<rparr>"

definition good_conn :: conn_env where
  "good_conn = \<lparr>do_accept = (1, []), pop = (True, []), new_ssl = (True, []), handler = good_handler\<rparr>"

definition good_setup :: setup_env where
  "good_setup =
     \<lparr>ctx_new = (True, []), use_PrivateKey_file = (1, []), use_certificate_chain_file = (1, []),
      check_private_key = (1, []), new_accept = (True, []), do_bind = (1, []),
      free_accept_bio = [], ctx_free = []\<rparr>"

subsection \<open>The words of the specification about the read loop\<close>




text \<open>What the library promises of a read that returns a positive length: the length
  is the number of bytes stored, and a newline ends the line.\<close>

definition get_line_contract :: "read_env \<Rightarrow> bool" where
  "get_line_contract r =
     (nbytes_read r \<le> 0 \<or>
      (nbytes_read r = int (length (in_buf r)) \<and> LF \<notin> set (butlast (in_buf r))))"



text \<open>A read that fills the buffer: \<open>BUF_SIZE - 1\<close> bytes in front of the NUL, none of
  them but the last a newline, and no shutdown of the peer seen at the loop test.\<close>

definition full_capacity_chunk :: "read_env \<Rightarrow> bool" where
  "full_capacity_chunk r =
     ((shutdown_flags r AND SSL_RECEIVED_SHUTDOWN) \<noteq> SSL_RECEIVED_SHUTDOWN \<and>
      nbytes_read r = int (BUF_SIZE - 1) \<and>
      length (in_buf r) = BUF_SIZE - 1 \<and>
      LF \<notin> set (butlast (in_buf r)))"

definition chunk_of_a :: read_env where
  "chunk_of_a =
     \<lparr>shutdown_flags = 0, nbytes_read = 16383, in_buf = replicate 16383 (CHR ''a''),
      read_raised = [], ssl_error = 0\<rparr>"

subsection \<open>What the calls of a phase put on the error queue\<close>

text \<open>The queue that line 85 of the source looks at: the entries raised by the set-up
  calls from the load of the certificate chain on, which empties the queue first.\<close>

definition setup_residual :: "setup_env \<Rightarrow> ossl_error list" where
  "setup_residual env =
     snd (use_certificate_chain_file env) @ snd (check_private_key env) @
     snd (new_accept env) @ snd (do_bind env)"

text \<open>The state in which the accept loop is entered.\<close>

definition listening :: "string option \<Rightarrow> string option \<Rightarrow> string option \<Rightarrow> world \<Rightarrow> world" where
  "listening port server_keypair_fname server_cert_chain_fname w =
     \<lparr>trace = trace w @
        [Call SSL_CTX_new, Call (SSL_CTX_use_PrivateKey_file server_keypair_fname),
         Call (SSL_CTX_use_certificate_chain_file server_cert_chain_fname),
         Call SSL_CTX_check_private_key, Call SSL_CTX_set_mode, Call (BIO_new_accept port),
         Call BIO_do_accept],
      queue = []\<rparr>"

text \<open>Every entry the calls of one connection can raise.\<close>

definition handler_raised :: "handler_env \<Rightarrow> ossl_error list" where
  "handler_raised env =
     snd (do_handshake env) @ concat (map read_raised (reads env)) @ snd (bio_write env) @
     snd (ssl_shutdown env) @ free_ssl_bio env"

definition conn_raised :: "conn_env \<Rightarrow> ossl_error list" where
  "conn_raised c =
     snd (do_accept c) @ snd (pop c) @ snd (new_ssl c) @ handler_raised (handler c)"

text \<open>The passes of the accept loop that come to their end: the accept has failed, or
  the connection is handled with the allocations the code asserts successful, every
  sending call returning, and the read loop not left waiting for the client.\<close>

definition pass_ends :: "conn_env \<Rightarrow> bool" where
  "pass_ends c =
     (fst (do_accept c) \<le> 0 \<or>
      (fst (pop c) \<and> fst (new_ssl c) \<and> malloc_in_buf (handler c) \<and>
       sigpipe (handler c) = None \<and>
       (fst (do_handshake (handler c)) \<le> 0 \<or>
        (get_ssl (handler c) = (1, True) \<and> read_exit (reads (handler c)) \<noteq> NeedInput))))"

section \<open>Basic facts\<close>

lemma emit_simps [simp]:
  "trace (emit e w) = trace w @ [e]" "queue (emit e w) = queue w"
  by (simp_all add: emit_def)

lemma lib_simps [simp]:
  "trace (lib c errs w) = trace w @ [Call c]" "queue (lib c errs w) = queue w @ errs"
  by (simp_all add: lib_def)

lemma clear_simps [simp]:
  "trace (ERR_clear_error w) = trace w" "queue (ERR_clear_error w) = []"
  by (simp_all add: ERR_clear_error_def)

lemma peek_None [simp]:
  "(ERR_peek_error w = None) = (queue w = [])"
  by (simp add: ERR_peek_error_def split: list.splits)

lemma peek_case [simp]:
  "(case ERR_peek_error w of None \<Rightarrow> a | Some x \<Rightarrow> b) = (if queue w = [] then a else b)"
  by (simp add: ERR_peek_error_def split: list.splits)

lemma report_simps [simp]:
  "trace (report es fmt args w) = trace w @ report_events es fmt args"
  "queue (report es fmt args w) = queue w"
  by (simp_all add: report_def report_events_def split: option.splits)

lemma drain_simps [simp]:
  "trace (drain_errors es w) = trace w @ drain_events es (queue w)"
  "queue (drain_errors es w) = []"
  by (simp_all add: drain_errors_def drain_events_def split: option.splits)

lemma banner_simps [simp]:
  "trace (listening_banner port w) =
     trace w @ [Printf ''\<newline>'' [], Printf ''*** Listening on port %s\<newline>'' [Str port],
                Printf ''\<newline>'' []]"
  "queue (listening_banner port w) = queue w"
  by (simp_all add: listening_banner_def)

lemma calls_append [simp]: "calls (xs @ ys) = calls xs @ calls ys"
  by (induction xs rule: calls.induct) simp_all

lemma printed_errors_append [simp]:
  "printed_errors (xs @ ys) = printed_errors xs @ printed_errors ys"
  by (induction xs rule: printed_errors.induct) simp_all

lemma calls_report [simp]: "calls (report_events es fmt args) = []"
  by (simp add: report_events_def split: option.splits)

lemma calls_drain [simp]: "calls (drain_events es q) = []"
  by (simp add: drain_events_def split: option.splits)

lemma printed_report [simp]: "printed_errors (report_events es fmt args) = []"
  by (simp add: report_events_def split: option.splits)

lemma printed_drain: "printed_errors (drain_events es q) = (case es of None \<Rightarrow> [] | Some s \<Rightarrow> q)"
  by (simp add: drain_events_def split: option.splits)

subsection \<open>The cleanup of the handler\<close>

lemma handler_cleanup_fst:
  "fst (handler_cleanup es env c w) =
     (if sigpipe env = Some InFree then Killed
      else Return (if queue w @ free_ssl_bio env = [] then c else 1))"
  by (simp add: handler_cleanup_def Let_def)

lemma handler_cleanup_queue [simp]:
  "sigpipe env \<noteq> Some InFree \<Longrightarrow> queue (snd (handler_cleanup es env c w)) = []"
  by (simp add: handler_cleanup_def Let_def)

lemma handler_cleanup_trace:
  "sigpipe env \<noteq> Some InFree \<Longrightarrow>
   trace (snd (handler_cleanup es env c w)) =
     trace w @ [Call (BIO_free_all ssl_bio), Call free] @
     (if queue w @ free_ssl_bio env = [] then [] else drain_events es (queue w @ free_ssl_bio env))"
  by (simp add: handler_cleanup_def Let_def)

lemma handler_cleanup_events:
  "trace (snd (handler_cleanup es env c w)) = trace w @ cleanup_events es env (queue w)"
  by (simp add: handler_cleanup_def cleanup_events_def Let_def)

lemma handler_cleanup_killed:
  "sigpipe env = Some InFree \<Longrightarrow>
   handler_cleanup es env c w = (Killed, lib (BIO_free_all ssl_bio) (free_ssl_bio env) w)"
  by (simp add: handler_cleanup_def Let_def)

subsection \<open>The read loop\<close>

lemma read_loop_fst: "fst (read_loop es rs w) = fst (read_loop es' rs w')"
  by (induction rs arbitrary: w w') (simp_all add: Let_def)

lemma read_loop_queue_cong:
  "queue w = queue w' \<Longrightarrow> queue (snd (read_loop es rs w)) = queue (snd (read_loop es' rs w'))"
proof (induction rs arbitrary: w w')
  case Nil
  then show ?case by simp
next
  case (Cons r rs)
  show ?case
    using Cons.prems by (auto simp add: Let_def intro!: Cons.IH)
qed

lemma read_loop_trace:
  "trace (snd (read_loop es rs w)) = trace w @ read_events es rs"
  unfolding read_events_def
proof (induction rs arbitrary: w)
  case Nil
  show ?case by (simp add: init_def)
next
  case (Cons r rs)
  let ?f = "\<lambda>w. emit (Fwrite (take (nat (nbytes_read r)) (in_buf r)))
                (lib (BIO_get_line BUF_SIZE) (read_raised r) (lib SSL_get_shutdown [] w))"
  have a: "trace (snd (read_loop es rs (?f w))) = trace (?f w) @ trace (snd (read_loop es rs init))"
    by (rule Cons.IH)
  have b: "trace (snd (read_loop es rs (?f init))) = trace (?f init) @ trace (snd (read_loop es rs init))"
    by (rule Cons.IH)
  show ?case by (simp add: Let_def a b) (simp add: init_def)
qed

lemma read_loop_queue:
  "queue (snd (read_loop es rs w)) = queue w @ read_errors rs"
  unfolding read_errors_def
proof (induction rs arbitrary: w)
  case Nil
  show ?case by (simp add: init_def)
next
  case (Cons r rs)
  let ?f = "\<lambda>w. emit (Fwrite (take (nat (nbytes_read r)) (in_buf r)))
                (lib (BIO_get_line BUF_SIZE) (read_raised r) (lib SSL_get_shutdown [] w))"
  have a: "queue (snd (read_loop es rs (?f w))) = queue (?f w) @ queue (snd (read_loop None rs init))"
    by (rule Cons.IH)
  have b: "queue (snd (read_loop None rs (?f init))) = queue (?f init) @ queue (snd (read_loop None rs init))"
    using Cons.IH[of "?f init"] read_loop_queue_cong[of "?f init" "?f init" es rs None] by simp
  show ?case by (simp add: Let_def a b) (simp add: init_def)
qed

lemma read_loop_exit: "fst (read_loop es rs w) = read_exit rs"
  unfolding read_exit_def by (rule read_loop_fst)

lemma read_loop_eq:
  "read_loop es rs w =
     (read_exit rs, w\<lparr>trace := trace w @ read_events es rs, queue := queue w @ read_errors rs\<rparr>)"
  by (rule prod_eqI) (simp_all add: read_loop_exit read_loop_trace read_loop_queue)

lemma read_exit_Nil: "read_exit [] = NeedInput"
  by (simp add: read_exit_def)

lemma read_exit_Cons:
  "read_exit (r # rs) =
     (if (shutdown_flags r AND SSL_RECEIVED_SHUTDOWN) = SSL_RECEIVED_SHUTDOWN then Finished
      else if nbytes_read r \<le> 0 then
        (if ssl_error r = SSL_ERROR_ZERO_RETURN then Finished else ReadFailed)
      else if strcmp_eq (in_buf r) [CR, LF] \<or> strcmp_eq (in_buf r) [LF] then Finished
      else read_exit rs)"
  unfolding read_exit_def by (simp add: Let_def) (simp only: read_loop_exit simp_thms)

lemma read_events_Nil: "read_events es [] = []"
  by (simp add: read_events_def init_def)

lemma read_events_Cons:
  "read_events es (r # rs) =
     Call SSL_get_shutdown #
     (if (shutdown_flags r AND SSL_RECEIVED_SHUTDOWN) = SSL_RECEIVED_SHUTDOWN then []
      else Call (BIO_get_line BUF_SIZE) #
        (if nbytes_read r \<le> 0 then
           Call (SSL_get_error (nbytes_read r)) #
           (if ssl_error r = SSL_ERROR_ZERO_RETURN then []
            else report_events es ''Error %i while reading data from the client\<newline>''
                   [Num (ssl_error r)])
         else Fwrite (take (nat (nbytes_read r)) (in_buf r)) #
           (if strcmp_eq (in_buf r) [CR, LF] \<or> strcmp_eq (in_buf r) [LF] then []
            else read_events es rs)))"
  unfolding read_events_def by (simp add: Let_def read_loop_trace) (simp add: init_def read_events_def)

lemma read_errors_Nil: "read_errors [] = []"
  by (simp add: read_errors_def init_def)

lemma read_errors_Cons:
  "read_errors (r # rs) =
     (if (shutdown_flags r AND SSL_RECEIVED_SHUTDOWN) = SSL_RECEIVED_SHUTDOWN then []
      else read_raised r @
        (if nbytes_read r \<le> 0 then []
         else if strcmp_eq (in_buf r) [CR, LF] \<or> strcmp_eq (in_buf r) [LF] then []
         else read_errors rs))"
  unfolding read_errors_def by (simp add: Let_def read_loop_queue) (simp add: init_def read_errors_def)

lemma no_write_in_read_loop: "filter is_write (calls (read_events es rs)) = []"
  by (induction rs) (simp_all add: read_events_Nil read_events_Cons is_write_def)

subsection \<open>The handler, path by path\<close>

lemma handler_fst:
  "fst (handle_accepted_connection es env w) =
     (if \<not> malloc_in_buf env then Abort
      else if sigpipe env = Some InHandshake then Killed
      else if fst (do_handshake env) \<le> 0
        then (if sigpipe env = Some InFree then Killed else Return 1)
      else if fst (get_ssl env) \<noteq> 1 \<or> \<not> snd (get_ssl env) then Abort
      else case read_exit (reads env) of
             NeedInput \<Rightarrow> Waiting
           | ReadFailed \<Rightarrow> (if sigpipe env = Some InFree then Killed else Return 1)
           | Finished \<Rightarrow>
               if sigpipe env = Some InWrite then Killed
               else if fst (bio_write env) \<noteq> response_length
                 then (if sigpipe env = Some InFree then Killed else Return 1)
               else if sigpipe env = Some InShutdown then Killed
               else if sigpipe env = Some InFree then Killed
               else Return (if snd (do_handshake env) @ read_errors (reads env) @
                               snd (bio_write env) @ snd (ssl_shutdown env) @
                               free_ssl_bio env = [] then 0 else 1))"
  by (simp add: handle_accepted_connection_def Let_def read_loop_eq handler_cleanup_fst
      split: loop_exit.splits)

lemma handler_returns_empty_queue:
  "fst (handle_accepted_connection es env w) = Return n \<Longrightarrow>
   queue (snd (handle_accepted_connection es env w)) = []"
  by (simp add: handle_accepted_connection_def Let_def read_loop_eq handler_cleanup_fst
      split: if_splits loop_exit.splits)

lemma handler_short_write_trace:
  assumes "sigpipe env = None"
    "malloc_in_buf env" "0 < fst (do_handshake env)" "get_ssl env = (1, True)"
    "read_exit (reads env) = Finished" "fst (bio_write env) \<noteq> response_length"
  shows "trace (snd (handle_accepted_connection es env w)) =
           trace w @
           [Call (malloc BUF_SIZE), Call BIO_do_handshake, Call BIO_get_ssl,
            Printf ''*** Receiving from the client:\<newline>'' []] @
           read_events es (reads env) @
           [Printf ''*** Receiving from the client finished\<newline>'' [],
            Printf ''*** Sending to the client:\<newline>'' [],
            Printf ''%s'' [Str (Some response)],
            Call (BIO_write response response_length)] @
           report_events es ''Could not send data all to the client\<newline>'' [] @
           [Call (BIO_free_all ssl_bio), Call free] @
           (let residual = snd (do_handshake env) @ read_errors (reads env) @
                           snd (bio_write env) @ free_ssl_bio env
            in if residual = [] then [] else drain_events es residual)"
  using assms
  by (simp add: handle_accepted_connection_def Let_def read_loop_eq handler_cleanup_trace)

subsection \<open>One pass of the accept loop\<close>

lemma handler_fst_indep:
  "fst (handle_accepted_connection es env w) = fst (handle_accepted_connection es' env w')"
  by (simp only: handler_fst)

lemma iteration_fst:
  "fst (iteration es port c w) =
     (if fst (do_accept c) \<le> 0 then Return 0
      else if \<not> fst (pop c) then Abort
      else if \<not> fst (new_ssl c) then Abort
      else case fst (handle_accepted_connection es (handler c) w) of
             Return _ \<Rightarrow> Return 0 | Abort \<Rightarrow> Abort | Killed \<Rightarrow> Killed
           | Waiting \<Rightarrow> Waiting)"
proof -
  let ?w5 = "lib BIO_push [] (lib BIO_new_ssl (snd (new_ssl c)) (lib BIO_pop (snd (pop c))
               (lib BIO_do_accept (snd (do_accept c)) (listening_banner port w))))"
  obtain r w6 where h: "handle_accepted_connection es (handler c) ?w5 = (r, w6)"
    by (cases "handle_accepted_connection es (handler c) ?w5")
  have "fst (handle_accepted_connection es (handler c) w) = r"
    using handler_fst_indep[of es "handler c" w es ?w5] h by simp
  then show ?thesis
    using h by (simp add: iteration_def Let_def split: result.splits)
qed

lemma iteration_returns_empty_queue:
  assumes "fst (iteration es port c w) = Return n"
  shows "queue (snd (iteration es port c w)) = []"
proof (cases "fst (do_accept c) \<le> 0")
  case True
  then show ?thesis by (simp add: iteration_def Let_def)
next
  case False
  let ?w5 = "lib BIO_push [] (lib BIO_new_ssl (snd (new_ssl c)) (lib BIO_pop (snd (pop c))
               (lib BIO_do_accept (snd (do_accept c)) (listening_banner port w))))"
  obtain r w6 where h: "handle_accepted_connection es (handler c) ?w5 = (r, w6)"
    by (cases "handle_accepted_connection es (handler c) ?w5")
  from assms False h obtain m where r: "r = Return m"
    by (cases r) (simp_all add: iteration_def Let_def split: if_splits)
  have "queue w6 = []"
    using handler_returns_empty_queue[of es "handler c" ?w5 m] h r by simp
  with assms False h r show ?thesis
    by (simp add: iteration_def Let_def split: if_splits)
qed

lemma accept_loop_step:
  "fst (iteration es port c w) = Return n \<Longrightarrow>
   accept_loop es port (c # cs) w = accept_loop es port cs (snd (iteration es port c w))"
  by (cases "iteration es port c w") simp

lemma accept_loop_never_returns: "fst (accept_loop es port cs w) \<noteq> Return n"
  by (induction cs arbitrary: w) (simp_all split: prod.splits result.splits)

subsection \<open>The comparison with the terminator lines\<close>

lemma strcmp_LF_iff:
  assumes "LF \<notin> set (butlast buf)"
  shows "strcmp_eq buf [LF] \<longleftrightarrow> buf = [LF]"
proof
  assume "strcmp_eq buf [LF]"
  then have t: "takeWhile (\<lambda>c. c \<noteq> NUL) buf = [LF]" by (simp add: strcmp_eq_def c_str_def)
  then obtain rest where b: "buf = LF # rest"
    by (cases buf) (auto split: if_splits)
  show "buf = [LF]"
  proof (cases rest)
    case Nil
    with b show ?thesis by simp
  next
    case (Cons x xs)
    with b assms show ?thesis by simp
  qed
next
  assume "buf = [LF]"
  then show "strcmp_eq buf [LF]" by (simp add: strcmp_eq_def c_str_def LF_def NUL_def)
qed

lemma strcmp_CRLF_iff:
  assumes "LF \<notin> set (butlast buf)"
  shows "strcmp_eq buf [CR, LF] \<longleftrightarrow> buf = [CR, LF]"
proof
  assume "strcmp_eq buf [CR, LF]"
  then have t: "takeWhile (\<lambda>c. c \<noteq> NUL) buf = [CR, LF]" by (simp add: strcmp_eq_def c_str_def)
  then obtain r1 where b1: "buf = CR # r1" and t1: "takeWhile (\<lambda>c. c \<noteq> NUL) r1 = [LF]"
    by (cases buf) (auto split: if_splits)
  from t1 obtain r2 where b2: "r1 = LF # r2"
    by (cases r1) (auto split: if_splits)
  show "buf = [CR, LF]"
  proof (cases r2)
    case Nil
    with b1 b2 show ?thesis by simp
  next
    case (Cons x xs)
    with b1 b2 assms show ?thesis by simp
  qed
next
  assume "buf = [CR, LF]"
  then show "strcmp_eq buf [CR, LF]"
    by (simp add: strcmp_eq_def c_str_def LF_def CR_def NUL_def)
qed


lemma full_chunk_no_terminator:
  assumes "full_capacity_chunk r"
  shows "\<not> strcmp_eq (in_buf r) [CR, LF] \<and> \<not> strcmp_eq (in_buf r) [LF]"
proof -
  from assms have l: "LF \<notin> set (butlast (in_buf r))" and n: "length (in_buf r) = 16383"
    by (simp_all add: full_capacity_chunk_def BUF_SIZE_def)
  from n have "in_buf r \<noteq> [CR, LF]" "in_buf r \<noteq> [LF]" by auto
  then show ?thesis by (simp add: strcmp_LF_iff[OF l] strcmp_CRLF_iff[OF l])
qed


lemma response_length_value: "response_length = 119"
  by (simp add: response_length_def response_def)

lemma read_exit_client_newline: "read_exit (client_newline # rs) = Finished"
  by (simp add: read_exit_Cons client_newline_def strcmp_eq_def c_str_def LF_def CR_def NUL_def
      SSL_RECEIVED_SHUTDOWN_def)

lemma handler_shutdown_trace:
  assumes "sigpipe env = None"
    "malloc_in_buf env" "0 < fst (do_handshake env)" "get_ssl env = (1, True)"
    "read_exit (reads env) = Finished" "fst (bio_write env) = response_length"
  shows "trace (snd (handle_accepted_connection es env w)) =
           trace w @
           [Call (malloc BUF_SIZE), Call BIO_do_handshake, Call BIO_get_ssl,
            Printf ''*** Receiving from the client:\<newline>'' []] @
           read_events es (reads env) @
           [Printf ''*** Receiving from the client finished\<newline>'' [],
            Printf ''*** Sending to the client:\<newline>'' [],
            Printf ''%s'' [Str (Some response)],
            Call (BIO_write response response_length),
            Printf ''*** Sending to the client finished\<newline>'' [],
            Call BIO_ssl_shutdown, Call (BIO_free_all ssl_bio), Call free] @
           (let residual = snd (do_handshake env) @ read_errors (reads env) @
                           snd (bio_write env) @ snd (ssl_shutdown env) @ free_ssl_bio env
            in if residual = [] then [] else drain_events es residual)"
  using assms
  by (simp add: handle_accepted_connection_def Let_def read_loop_eq handler_cleanup_trace)


lemma handler_writes_after_reading:
  assumes "sigpipe env = None"
    "malloc_in_buf env" "0 < fst (do_handshake env)" "get_ssl env = (1, True)"
    "read_exit (reads env) = Finished"
  shows "BIO_write response response_length \<in>
           set (calls (trace (snd (handle_accepted_connection es env w))))"
proof (cases "fst (bio_write env) = response_length")
  case True
  show ?thesis by (simp add: handler_shutdown_trace[OF assms True] Let_def)
next
  case False
  show ?thesis by (simp add: handler_short_write_trace[OF assms False] Let_def)
qed

lemma full_chunk_of_a: "full_capacity_chunk chunk_of_a"
  by (simp add: full_capacity_chunk_def chunk_of_a_def BUF_SIZE_def SSL_RECEIVED_SHUTDOWN_def
      LF_def butlast_conv_take)

lemma handler_cleanup_ignores_shutdown [simp]:
  "handler_cleanup es (env\<lparr>ssl_shutdown := x\<rparr>) c w = handler_cleanup es env c w"
  by (simp add: handler_cleanup_def)


subsection \<open>The cleanup of the server and its set-up\<close>

lemma server_cleanup_fst:
  "fst (server_cleanup es env b c w) =
     Return (if queue w @ (if b then free_accept_bio env else []) @ ctx_free env = [] then c else 1)"
  by (cases b) (simp_all add: server_cleanup_def Let_def)

lemma server_cleanup_queue [simp]:
  "queue (snd (server_cleanup es env b c w)) = []"
  by (simp add: server_cleanup_def Let_def)

lemma setup_state:
  "lib BIO_do_accept (snd (do_bind env))
     (lib (BIO_new_accept port) (snd (new_accept env))
        (lib SSL_CTX_set_mode []
           (lib SSL_CTX_check_private_key (snd (check_private_key env))
              (lib (SSL_CTX_use_certificate_chain_file cf) (snd (use_certificate_chain_file env))
                 (ERR_clear_error
                    (lib (SSL_CTX_use_PrivateKey_file kf) (snd (use_PrivateKey_file env))
                       (lib SSL_CTX_new (snd (ctx_new env)) (ERR_clear_error w)))))))) =
   (listening port kf cf w)\<lparr>queue := setup_residual env\<rparr>"
  by (simp add: listening_def setup_residual_def lib_def ERR_clear_error_def)

lemma listening_simps [simp]:
  "trace (listening port kf cf w) =
     trace w @
     [Call SSL_CTX_new, Call (SSL_CTX_use_PrivateKey_file kf),
      Call (SSL_CTX_use_certificate_chain_file cf),
      Call SSL_CTX_check_private_key, Call SSL_CTX_set_mode, Call (BIO_new_accept port),
      Call BIO_do_accept]"
  "queue (listening port kf cf w) = []"
  by (simp_all add: listening_def)

lemma server_cleanup_trace:
  "trace (snd (server_cleanup es env b c w)) =
     trace w @ (if b then [Call (BIO_free_all accept_bio)] else []) @ [Call SSL_CTX_free] @
     (let residual = queue w @ (if b then free_accept_bio env else []) @ ctx_free env
      in if residual = [] then [] else drain_events es residual)"
  by (simp add: server_cleanup_def Let_def)

lemma run_enters_loop:
  assumes "fst (ctx_new env)" "0 < fst (use_PrivateKey_file env)"
    "0 < fst (use_certificate_chain_file env)" "0 < fst (check_private_key env)"
    "fst (new_accept env)" "0 < fst (do_bind env)" "setup_residual env = []"
  shows "run_tls_server port kf cf es env conns w = accept_loop es port conns (listening port kf cf w)"
proof -
  have "(listening port kf cf w)\<lparr>queue := setup_residual env\<rparr> = listening port kf cf w"
    using assms(7) by (simp add: listening_def)
  then show ?thesis
    using assms by (simp only: run_tls_server_def Let_def setup_state) simp
qed

lemma run_residual:
  assumes "fst (ctx_new env)" "0 < fst (use_PrivateKey_file env)"
    "0 < fst (use_certificate_chain_file env)" "0 < fst (check_private_key env)"
    "fst (new_accept env)" "0 < fst (do_bind env)" "setup_residual env \<noteq> []"
  shows "fst (run_tls_server port kf cf es env conns w) = Return 1"
    and "queue (snd (run_tls_server port kf cf es env conns w)) = []"
    and "trace (snd (run_tls_server port kf cf es env conns w)) =
           trace w @
           [Call SSL_CTX_new, Call (SSL_CTX_use_PrivateKey_file kf),
            Call (SSL_CTX_use_certificate_chain_file cf),
            Call SSL_CTX_check_private_key, Call SSL_CTX_set_mode, Call (BIO_new_accept port),
            Call BIO_do_accept] @
           report_events es ''Unexpected error during TLS server setup\<newline>'' [] @
           [Call (BIO_free_all accept_bio), Call SSL_CTX_free] @
           drain_events es (setup_residual env @ free_accept_bio env @ ctx_free env)"
  using assms
  by (simp_all only: run_tls_server_def Let_def setup_state)
    (simp_all add: server_cleanup_fst server_cleanup_trace)


lemma run_context_failed_fst:
  assumes "fst (ctx_new env)"
    "fst (use_PrivateKey_file env) \<le> 0 \<or> fst (use_certificate_chain_file env) \<le> 0 \<or>
     fst (check_private_key env) \<le> 0"
  shows "fst (run_tls_server port kf cf es env conns w) = Return 1"
proof -
  consider (k) "fst (use_PrivateKey_file env) \<le> 0"
    | (c) "0 < fst (use_PrivateKey_file env)" "fst (use_certificate_chain_file env) \<le> 0"
    | (m) "0 < fst (use_PrivateKey_file env)" "0 < fst (use_certificate_chain_file env)"
          "fst (check_private_key env) \<le> 0"
    using assms(2) by linarith
  then show ?thesis
  proof cases
    case k
    with assms(1) show ?thesis
      by (simp add: run_tls_server_def Let_def server_cleanup_fst)
  next
    case c
    with assms(1) show ?thesis
      by (simp add: run_tls_server_def Let_def server_cleanup_fst)
  next
    case m
    with assms(1) show ?thesis
      by (simp add: run_tls_server_def Let_def server_cleanup_fst)
  qed
qed

lemma run_context_failed_trace:
  assumes "fst (ctx_new env)"
    "fst (use_PrivateKey_file env) \<le> 0 \<or> fst (use_certificate_chain_file env) \<le> 0 \<or>
     fst (check_private_key env) \<le> 0"
  shows "trace (snd (run_tls_server port kf cf es env conns w)) =
           trace w @
           Call SSL_CTX_new # Call (SSL_CTX_use_PrivateKey_file kf) #
           (if fst (use_PrivateKey_file env) \<le> 0
            then report_events es ''Could not load server keypair from file %s\<newline>'' [Str kf]
            else Call (SSL_CTX_use_certificate_chain_file cf) #
              (if fst (use_certificate_chain_file env) \<le> 0
               then report_events es
                      ''Could not load server certificate chain from file %s\<newline>'' [Str cf]
               else Call SSL_CTX_check_private_key #
                      report_events es
                        ''Server keypair does not match server certificate\<newline>'' [])) @
           [Call SSL_CTX_free] @
           (let residual =
                  (if fst (use_PrivateKey_file env) \<le> 0
                   then snd (ctx_new env) @ snd (use_PrivateKey_file env)
                   else snd (use_certificate_chain_file env) @
                     (if fst (use_certificate_chain_file env) \<le> 0 then []
                      else snd (check_private_key env))) @
                  ctx_free env
            in if residual = [] then [] else drain_events es residual)"
proof -
  consider (k) "fst (use_PrivateKey_file env) \<le> 0"
    | (c) "0 < fst (use_PrivateKey_file env)" "fst (use_certificate_chain_file env) \<le> 0"
    | (m) "0 < fst (use_PrivateKey_file env)" "0 < fst (use_certificate_chain_file env)"
          "fst (check_private_key env) \<le> 0"
    using assms(2) by linarith
  then show ?thesis
  proof cases
    case k
    with assms(1) show ?thesis
      by (simp add: run_tls_server_def Let_def server_cleanup_trace)
  next
    case c
    with assms(1) show ?thesis
      by (simp add: run_tls_server_def Let_def server_cleanup_trace)
  next
    case m
    with assms(1) show ?thesis
      by (simp add: run_tls_server_def Let_def server_cleanup_trace)
  qed
qed



lemma accept_loop_never_returns': "accept_loop es port cs w \<noteq> (Return n, w')"
  using accept_loop_never_returns[of es port cs w n] by auto


subsection \<open>What a connection can print of the error queue\<close>

lemma printed_read_events [simp]: "printed_errors (read_events es rs) = []"
  by (induction rs) (simp_all add: read_events_Nil read_events_Cons)

lemma read_errors_subset: "set (read_errors rs) \<subseteq> set (concat (map read_raised rs))"
  by (induction rs) (auto simp add: read_errors_Nil read_errors_Cons)

lemma printed_drain_subset: "set (printed_errors (drain_events es q)) \<subseteq> set q"
  by (cases es) (simp_all add: printed_drain)

lemma handler_malloc_failed:
  "\<not> malloc_in_buf env \<Longrightarrow>
   handle_accepted_connection es env w = (Abort, lib (malloc BUF_SIZE) [] w)"
  by (simp add: handle_accepted_connection_def Let_def)


lemma handler_get_ssl_failed_trace:
  assumes "sigpipe env \<noteq> Some InHandshake"
    "malloc_in_buf env" "0 < fst (do_handshake env)" "get_ssl env \<noteq> (1, True)"
  shows "trace (snd (handle_accepted_connection es env w)) =
           trace w @ [Call (malloc BUF_SIZE), Call BIO_do_handshake, Call BIO_get_ssl]"
proof -
  from assms(4) have "fst (get_ssl env) \<noteq> 1 \<or> \<not> snd (get_ssl env)"
    by (cases "get_ssl env") auto
  with assms(1,2,3) show ?thesis
    by (auto simp add: handle_accepted_connection_def Let_def)
qed

lemma handler_waiting_trace:
  assumes "sigpipe env \<noteq> Some InHandshake"
    "malloc_in_buf env" "0 < fst (do_handshake env)" "get_ssl env = (1, True)"
    "read_exit (reads env) = NeedInput"
  shows "trace (snd (handle_accepted_connection es env w)) =
           trace w @
           [Call (malloc BUF_SIZE), Call BIO_do_handshake, Call BIO_get_ssl,
            Printf ''*** Receiving from the client:\<newline>'' []] @
           read_events es (reads env)"
  using assms
  by (simp add: handle_accepted_connection_def Let_def read_loop_eq)

lemma printed_cleanup_subset:
  "set (printed_errors (cleanup_events es env q)) \<subseteq> set q \<union> set (free_ssl_bio env)"
  by (cases es) (auto simp add: cleanup_events_def drain_events_def)

lemma handler_reports_own_errors:
  "\<exists>evs. trace (snd (handle_accepted_connection es env w)) = trace w @ evs \<and>
         set (printed_errors evs) \<subseteq> set (handler_raised env)"
proof -
  note rs = read_errors_subset[of "reads env"]
  note c1 = printed_cleanup_subset[of es env "snd (do_handshake env)"]
  note c2 = printed_cleanup_subset[of es env "snd (do_handshake env) @ read_errors (reads env)"]
  note c3 = printed_cleanup_subset[of es env
      "snd (do_handshake env) @ read_errors (reads env) @ snd (bio_write env)"]
  note c4 = printed_cleanup_subset[of es env
      "snd (do_handshake env) @ read_errors (reads env) @ snd (bio_write env) @
       snd (ssl_shutdown env)"]
  show ?thesis
    using rs c1 c2 c3 c4
    by (auto simp add: handle_accepted_connection_def Let_def read_loop_eq
        handler_cleanup_events handler_raised_def split: loop_exit.splits)
qed

subsection \<open>One pass of the accept loop, path by path\<close>

lemma iteration_accept_failed:
  assumes "fst (do_accept c) \<le> 0"
  shows "fst (iteration es port c w) = Return 0"
    and "queue (snd (iteration es port c w)) = []"
    and "trace (snd (iteration es port c w)) =
           trace w @
           [Printf ''\<newline>'' [], Printf ''*** Listening on port %s\<newline>'' [Str port],
            Printf ''\<newline>'' [], Call BIO_do_accept] @
           report_events es ''Error when trying to accept connection\<newline>'' [] @
           (let residual = queue w @ snd (do_accept c)
            in if residual = [] then [] else drain_events es residual)"
  using assms by (simp_all add: iteration_def Let_def)

lemma iteration_pop_failed:
  assumes "0 < fst (do_accept c)" "\<not> fst (pop c)"
  shows "iteration es port c w =
           (Abort, lib BIO_pop (snd (pop c))
                     (lib BIO_do_accept (snd (do_accept c)) (listening_banner port w)))"
  using assms by (simp add: iteration_def Let_def)

lemma iteration_new_ssl_failed:
  assumes "0 < fst (do_accept c)" "fst (pop c)" "\<not> fst (new_ssl c)"
  shows "iteration es port c w =
           (Abort, lib BIO_new_ssl (snd (new_ssl c))
                     (lib BIO_pop (snd (pop c))
                        (lib BIO_do_accept (snd (do_accept c)) (listening_banner port w))))"
  using assms by (simp add: iteration_def Let_def)

lemma iteration_handled:
  assumes "0 < fst (do_accept c)" "fst (pop c)" "fst (new_ssl c)"
  shows "snd (iteration es port c w) =
           snd (handle_accepted_connection es (handler c)
                  (lib BIO_push []
                     (lib BIO_new_ssl (snd (new_ssl c))
                        (lib BIO_pop (snd (pop c))
                           (lib BIO_do_accept (snd (do_accept c)) (listening_banner port w))))))"
  using assms by (simp add: iteration_def Let_def split: prod.splits result.splits)

lemma iteration_reports_own_errors:
  "\<exists>evs. trace (snd (iteration es port c w)) = trace w @ evs \<and>
         set (printed_errors evs) \<subseteq> set (queue w) \<union> set (conn_raised c)"
proof -
  consider (a) "fst (do_accept c) \<le> 0"
    | (p) "0 < fst (do_accept c)" "\<not> fst (pop c)"
    | (n) "0 < fst (do_accept c)" "fst (pop c)" "\<not> fst (new_ssl c)"
    | (h) "0 < fst (do_accept c)" "fst (pop c)" "fst (new_ssl c)"
    by force
  then show ?thesis
  proof cases
    case a
    show ?thesis
      unfolding iteration_accept_failed(3)[OF a]
      using printed_drain_subset[of es "queue w @ snd (do_accept c)"]
      by (auto simp add: Let_def conn_raised_def)
  next
    case p
    show ?thesis unfolding iteration_pop_failed[OF p] by simp
  next
    case n
    show ?thesis unfolding iteration_new_ssl_failed[OF n] by simp
  next
    case h
    let ?w5 = "lib BIO_push []
                     (lib BIO_new_ssl (snd (new_ssl c))
                        (lib BIO_pop (snd (pop c))
                           (lib BIO_do_accept (snd (do_accept c)) (listening_banner port w))))"
    from handler_reports_own_errors[of es "handler c" ?w5] obtain evs where
      t: "trace (snd (handle_accepted_connection es (handler c) ?w5)) = trace ?w5 @ evs" and
      s: "set (printed_errors evs) \<subseteq> set (handler_raised (handler c))"
      by blast
    have "trace (snd (iteration es port c w)) =
            trace w @
            ([Printf ''\<newline>'' [], Printf ''*** Listening on port %s\<newline>'' [Str port],
              Printf ''\<newline>'' [], Call BIO_do_accept, Call BIO_pop, Call BIO_new_ssl,
              Call BIO_push] @ evs)"
      by (simp add: iteration_handled[OF h] t)
    moreover have "set (printed_errors
            ([Printf ''\<newline>'' [], Printf ''*** Listening on port %s\<newline>'' [Str port],
              Printf ''\<newline>'' [], Call BIO_do_accept, Call BIO_pop, Call BIO_new_ssl,
              Call BIO_push] @ evs)) \<subseteq> set (queue w) \<union> set (conn_raised c)"
      using s by (auto simp add: conn_raised_def)
    ultimately show ?thesis by blast
  qed
qed

lemma clear_after_lib:
  "ERR_clear_error (lib c e (w\<lparr>queue := q\<rparr>)) = ERR_clear_error (lib c e w)"
  by (simp add: ERR_clear_error_def lib_def)

lemma handler_clears_queue_first:
  "fst (handle_accepted_connection es env (w\<lparr>queue := q\<rparr>)) =
     fst (handle_accepted_connection es env w) \<and>
   trace (snd (handle_accepted_connection es env (w\<lparr>queue := q\<rparr>))) =
     trace (snd (handle_accepted_connection es env w))"
proof (cases "malloc_in_buf env")
  case False
  then show ?thesis by (simp add: handler_malloc_failed)
next
  case True
  then have "handle_accepted_connection es env (w\<lparr>queue := q\<rparr>) =
             handle_accepted_connection es env w"
    by (simp add: handle_accepted_connection_def Let_def clear_after_lib)
  then show ?thesis by simp
qed

lemma pass_ends_returns:
  assumes "pass_ends c"
  shows "fst (iteration es port c w) = Return 0"
  using assms unfolding pass_ends_def
  by (cases "get_ssl (handler c)"; cases "read_exit (reads (handler c))")
    (auto simp add: iteration_fst handler_fst)

lemma iteration_completes:
  assumes "fst (pop c)" "fst (new_ssl c)" "malloc_in_buf (handler c)"
    "sigpipe (handler c) = None"
    "get_ssl (handler c) = (1, True)" "read_exit (reads (handler c)) \<noteq> NeedInput"
  shows "fst (iteration es port c w) = Return 0"
  using assms by (intro pass_ends_returns) (simp add: pass_ends_def)







text \<open>What the program does not guard against: the peer resets the connection, the read
  fails, and the close notification that freeing the channel sends ends the process. No
  later connection is served.\<close>

lemma reset_connection_ends_the_server:
  assumes "0 < fst (do_accept c)" "fst (pop c)" "fst (new_ssl c)" "malloc_in_buf (handler c)"
    "0 < fst (do_handshake (handler c))" "get_ssl (handler c) = (1, True)"
    "read_exit (reads (handler c)) = ReadFailed" "sigpipe (handler c) = Some InFree"
  shows "fst (accept_loop es port (c # cs) w) = Killed"
proof -
  have "fst (iteration es port c w) = Killed"
    using assms by (simp add: iteration_fst handler_fst)
  then show ?thesis
    by (cases "iteration es port c w") simp
qed

lemma no_printf_in_reports [simp]:
  "Printf f a \<notin> set (report_events es fmt args)" "Printf f a \<notin> set (drain_events es q)"
  by (simp_all add: report_events_def drain_events_def split: option.splits)


subsection \<open>Reads that fill the buffer, and the rest of the line\<close>

lemma full_chunks_read_through:
  assumes "list_all full_capacity_chunk chunks"
  shows "read_loop es (chunks @ rest) w =
           read_loop es rest
             (w\<lparr>trace := trace w @
                   concat (map (\<lambda>r. [Call SSL_get_shutdown, Call (BIO_get_line BUF_SIZE),
                                      Fwrite (in_buf r)]) chunks),
                queue := queue w @ concat (map read_raised chunks)\<rparr>) \<and>
         read_exit chunks = NeedInput \<and>
         list_all (\<lambda>r. 0 < nbytes_read r \<and> \<not> strcmp_eq (in_buf r) [CR, LF] \<and>
                        \<not> strcmp_eq (in_buf r) [LF]) chunks"
  using assms
proof (induction chunks arbitrary: w)
  case Nil
  show ?case by (simp add: read_exit_Nil)
next
  case (Cons r chunks)
  then have c: "full_capacity_chunk r" and cs: "list_all full_capacity_chunk chunks"
    by simp_all
  note nt = full_chunk_no_terminator[OF c]
  from c have fl: "(shutdown_flags r AND SSL_RECEIVED_SHUTDOWN) \<noteq> SSL_RECEIVED_SHUTDOWN"
    and n: "nbytes_read r = int (length (in_buf r))" and pos: "0 < nbytes_read r"
    by (simp_all add: full_capacity_chunk_def BUF_SIZE_def)
  let ?w3 = "emit (Fwrite (in_buf r))
               (lib (BIO_get_line BUF_SIZE) (read_raised r) (lib SSL_get_shutdown [] w))"
  have step: "read_loop es ((r # chunks) @ rest) w = read_loop es (chunks @ rest) ?w3"
    using fl n pos nt by (simp add: Let_def)
  have w3: "?w3\<lparr>trace := trace ?w3 @
                   concat (map (\<lambda>r. [Call SSL_get_shutdown, Call (BIO_get_line BUF_SIZE),
                                      Fwrite (in_buf r)]) chunks),
                queue := queue ?w3 @ concat (map read_raised chunks)\<rparr> =
            w\<lparr>trace := trace w @
                   concat (map (\<lambda>r. [Call SSL_get_shutdown, Call (BIO_get_line BUF_SIZE),
                                      Fwrite (in_buf r)]) (r # chunks)),
                queue := queue w @ concat (map read_raised (r # chunks))\<rparr>"
    by (simp add: emit_def lib_def)
  from Cons.IH[OF cs, of ?w3] have
    ih1: "read_loop es (chunks @ rest) ?w3 =
           read_loop es rest
             (?w3\<lparr>trace := trace ?w3 @
                   concat (map (\<lambda>r. [Call SSL_get_shutdown, Call (BIO_get_line BUF_SIZE),
                                      Fwrite (in_buf r)]) chunks),
                queue := queue ?w3 @ concat (map read_raised chunks)\<rparr>)"
    and ih2: "read_exit chunks = NeedInput"
    and ih3: "list_all (\<lambda>r. 0 < nbytes_read r \<and> \<not> strcmp_eq (in_buf r) [CR, LF] \<and>
                        \<not> strcmp_eq (in_buf r) [LF]) chunks"
    by simp_all
  have a: "read_loop es ((r # chunks) @ rest) w =
           read_loop es rest
             (w\<lparr>trace := trace w @
                   concat (map (\<lambda>r. [Call SSL_get_shutdown, Call (BIO_get_line BUF_SIZE),
                                      Fwrite (in_buf r)]) (r # chunks)),
                queue := queue w @ concat (map read_raised (r # chunks))\<rparr>)"
    by (simp only: step ih1 w3)
  have b: "read_exit (r # chunks) = NeedInput"
    using fl pos nt ih2 by (simp add: read_exit_Cons)
  from a b pos nt ih3 show ?case by simp
qed

lemma rest_of_line_terminator:
  assumes "get_line_contract l" "0 < nbytes_read l"
  shows "(strcmp_eq (in_buf l) [CR, LF] \<or> strcmp_eq (in_buf l) [LF]) \<longleftrightarrow>
         (in_buf l = [CR, LF] \<or> in_buf l = [LF])"
    and "take (nat (nbytes_read l)) (in_buf l) = in_buf l"
proof -
  from assms have n: "nbytes_read l = int (length (in_buf l))"
    and b: "LF \<notin> set (butlast (in_buf l))"
    by (auto simp add: get_line_contract_def)
  show "(strcmp_eq (in_buf l) [CR, LF] \<or> strcmp_eq (in_buf l) [LF]) \<longleftrightarrow>
         (in_buf l = [CR, LF] \<or> in_buf l = [LF])"
    by (simp add: strcmp_LF_iff[OF b] strcmp_CRLF_iff[OF b])
  show "take (nat (nbytes_read l)) (in_buf l) = in_buf l" by (simp add: n)
qed

lemma chunk_of_a_read:
  "read_exit (chunk_of_a # rs) = read_exit rs"
  "read_events es (chunk_of_a # rs) =
     [Call SSL_get_shutdown, Call (BIO_get_line BUF_SIZE), Fwrite (in_buf chunk_of_a)] @
     read_events es rs"
  "read_errors (chunk_of_a # rs) = read_errors rs"
proof -
  note nt = full_chunk_no_terminator[OF full_chunk_of_a]
  have f: "(shutdown_flags chunk_of_a AND SSL_RECEIVED_SHUTDOWN) \<noteq> SSL_RECEIVED_SHUTDOWN"
    and n: "nbytes_read chunk_of_a = 16383" and q: "read_raised chunk_of_a = []"
    and t: "take 16383 (in_buf chunk_of_a) = in_buf chunk_of_a"
    by (simp_all add: chunk_of_a_def SSL_RECEIVED_SHUTDOWN_def)
  show "read_exit (chunk_of_a # rs) = read_exit rs"
    using f nt by (simp add: read_exit_Cons n)
  show "read_events es (chunk_of_a # rs) =
     [Call SSL_get_shutdown, Call (BIO_get_line BUF_SIZE), Fwrite (in_buf chunk_of_a)] @
     read_events es rs"
    using f nt by (simp add: read_events_Cons n t)
  show "read_errors (chunk_of_a # rs) = read_errors rs"
    using f nt by (simp add: read_errors_Cons n q)
qed

subsection \<open>main\<close>

lemma main_usage:
  assumes "length argv \<noteq> 3" "length argv \<noteq> 4"
  shows "main argv env conns w = (Return 1, emit (Fprintf Stderr usage [Str (argv_at argv 0)]) w)"
  using assms by (simp add: main_def)

lemma main_three_arguments:
  "main [prog, p, k, c] env conns w =
     (case run_tls_server (Some p) (Some k) (Some c) (Some Stderr) env conns w of
        (Return err, w1) \<Rightarrow>
          if err \<noteq> 0 then (Return 1, emit (Fprintf Stderr ''TLS communication failed\<newline>'' []) w1)
          else (Return 0, emit (Fprintf Stderr ''TLS communication succeeded\<newline>'' []) w1)
      | (Abort, w1) \<Rightarrow> (Abort, w1)
      | (Killed, w1) \<Rightarrow> (Killed, w1)
      | (Waiting, w1) \<Rightarrow> (Waiting, w1))"
  by (simp add: main_def argv_at_def)

lemma main_two_arguments:
  "main [prog, p, k] env conns w =
     (case run_tls_server (Some p) (Some k) None (Some Stderr) env conns w of
        (Return err, w1) \<Rightarrow>
          if err \<noteq> 0 then (Return 1, emit (Fprintf Stderr ''TLS communication failed\<newline>'' []) w1)
          else (Return 0, emit (Fprintf Stderr ''TLS communication succeeded\<newline>'' []) w1)
      | (Abort, w1) \<Rightarrow> (Abort, w1)
      | (Killed, w1) \<Rightarrow> (Killed, w1)
      | (Waiting, w1) \<Rightarrow> (Waiting, w1))"
  by (simp add: main_def argv_at_def)

lemma main_exit_code:
  assumes "fst (run_tls_server (Some p) (Some k) (Some c) (Some Stderr) env conns w) = Return 1"
  shows "fst (main [prog, p, k, c] env conns w) = Return 1"
  using assms
  by (cases "run_tls_server (Some p) (Some k) (Some c) (Some Stderr) env conns w")
    (simp add: main_three_arguments)

section \<open>The claims\<close>

text \<open>C6: in the WritingResponse state (the buffer is allocated, the handshake has
  succeeded, the read loop has ended normally), and with every call of the connection
  returning, a write that returns anything but the length of the response makes the
  handler return 1. It prints the short-write message when it has an error stream,
  calls \<open>BIO_write\<close> once and never again, calls no shutdown, frees the channel and
  the buffer, leaves the error queue empty, and the accept loop goes on with the next
  connection.\<close>

theorem C6_short_write_fails_and_releases:
  assumes nosig: "sigpipe env = None"
    and alloc: "malloc_in_buf env"
    and hs: "0 < fst (do_handshake env)"
    and ssl: "get_ssl env = (1, True)"
    and rd: "read_exit (reads env) = Finished"
    and wr: "fst (bio_write env) \<noteq> response_length"
  shows "fst (handle_accepted_connection es env w) = Return 1 \<and>
         queue (snd (handle_accepted_connection es env w)) = [] \<and>
         trace (snd (handle_accepted_connection es env w)) =
           trace w @
           [Call (malloc BUF_SIZE), Call BIO_do_handshake, Call BIO_get_ssl,
            Printf ''*** Receiving from the client:\<newline>'' []] @
           read_events es (reads env) @
           [Printf ''*** Receiving from the client finished\<newline>'' [],
            Printf ''*** Sending to the client:\<newline>'' [],
            Printf ''%s'' [Str (Some response)],
            Call (BIO_write response response_length)] @
           report_events es ''Could not send data all to the client\<newline>'' [] @
           [Call (BIO_free_all ssl_bio), Call free] @
           (let residual = snd (do_handshake env) @ read_errors (reads env) @
                           snd (bio_write env) @ free_ssl_bio env
            in if residual = [] then [] else drain_events es residual) \<and>
         filter is_write (calls (trace (snd (handle_accepted_connection es env w)))) =
           filter is_write (calls (trace w)) @ [BIO_write response response_length] \<and>
         (\<forall>c cs port w0.
            handler c = env \<and> 0 < fst (do_accept c) \<and> fst (pop c) \<and> fst (new_ssl c) \<longrightarrow>
            accept_loop es port (c # cs) w0 =
              accept_loop es port cs (snd (iteration es port c w0)))"
proof -
  have r: "fst (handle_accepted_connection es env w') = Return 1" for w'
    using assms by (simp add: handler_fst)
  have q: "queue (snd (handle_accepted_connection es env w)) = []"
    using r by (rule handler_returns_empty_queue)
  note t = handler_short_write_trace[OF assms, of es w]
  have f: "filter is_write (calls (trace (snd (handle_accepted_connection es env w)))) =
           filter is_write (calls (trace w)) @ [BIO_write response response_length]"
    by (simp add: t no_write_in_read_loop is_write_def Let_def)
  have l: "accept_loop es port (c # cs) w0 = accept_loop es port cs (snd (iteration es port c w0))"
    if "handler c = env \<and> 0 < fst (do_accept c) \<and> fst (pop c) \<and> fst (new_ssl c)"
    for c cs port w0
  proof -
    have "fst (iteration es port c w0) = Return 0"
      using that r[of w0] by (simp add: iteration_fst)
    then show ?thesis by (rule accept_loop_step)
  qed
  show ?thesis using r q t f l by blast
qed

theorem C6_witness:
  "sigpipe (good_handler\<lparr>bio_write := (50, [])\<rparr>) = None \<and>
   malloc_in_buf (good_handler\<lparr>bio_write := (50, [])\<rparr>) \<and>
   0 < fst (do_handshake (good_handler\<lparr>bio_write := (50, [])\<rparr>)) \<and>
   get_ssl (good_handler\<lparr>bio_write := (50, [])\<rparr>) = (1, True) \<and>
   read_exit (reads (good_handler\<lparr>bio_write := (50, [])\<rparr>)) = Finished \<and>
   fst (bio_write (good_handler\<lparr>bio_write := (50, [])\<rparr>)) \<noteq> response_length \<and>
   fst (handle_accepted_connection (Some Stderr) (good_handler\<lparr>bio_write := (50, [])\<rparr>) init) = Return 1 \<and>
   calls (trace (snd (handle_accepted_connection (Some Stderr) (good_handler\<lparr>bio_write := (50, [])\<rparr>) init))) =
     [malloc BUF_SIZE, BIO_do_handshake, BIO_get_ssl, SSL_get_shutdown, BIO_get_line BUF_SIZE,
      BIO_write response response_length, BIO_free_all ssl_bio, free] \<and>
   accept_loop (Some Stderr) (Some ''4433'') [good_conn\<lparr>handler := good_handler\<lparr>bio_write := (50, [])\<rparr>\<rparr>] init =
     accept_loop (Some Stderr) (Some ''4433'') []
       (snd (iteration (Some Stderr) (Some ''4433'') (good_conn\<lparr>handler := good_handler\<lparr>bio_write := (50, [])\<rparr>\<rparr>) init))"
proof -
  let ?E = "good_handler\<lparr>bio_write := (50, [])\<rparr>"
  have h0: "sigpipe ?E = None" by (simp add: good_handler_def)
  have h1: "malloc_in_buf ?E" by (simp add: good_handler_def)
  have h2: "0 < fst (do_handshake ?E)" by (simp add: good_handler_def)
  have h3: "get_ssl ?E = (1, True)" by (simp add: good_handler_def)
  have h4: "read_exit (reads ?E) = Finished"
    by (simp add: good_handler_def read_exit_client_newline)
  have h5: "fst (bio_write ?E) \<noteq> response_length"
    by (simp add: response_length_value)
  have re: "read_events (Some Stderr) [client_newline] =
              [Call SSL_get_shutdown, Call (BIO_get_line BUF_SIZE), Fwrite [LF]]"
    by (simp add: read_events_Cons client_newline_def strcmp_eq_def c_str_def
        LF_def CR_def NUL_def SSL_RECEIVED_SHUTDOWN_def)
  have rr: "read_errors [client_newline] = []"
    by (simp add: read_errors_Cons read_errors_Nil client_newline_def)
  have g: "handler (good_conn\<lparr>handler := ?E\<rparr>) = ?E \<and> 0 < fst (do_accept (good_conn\<lparr>handler := ?E\<rparr>)) \<and>
           fst (pop (good_conn\<lparr>handler := ?E\<rparr>)) \<and> fst (new_ssl (good_conn\<lparr>handler := ?E\<rparr>))"
    by (simp add: good_conn_def)
  from C6_short_write_fails_and_releases[OF h0 h1 h2 h3 h4 h5, of "Some Stderr" init] g
  show ?thesis
    using h0 h1 h2 h3 h4 h5 by (simp add: good_handler_def re rr init_def)
qed



text \<open>C10, as the code has it: a line longer than the buffer reaches the program as
  reads that fill the buffer, \<open>BUF_SIZE - 1\<close> bytes each, followed by the rest of the
  line. Each read that fills the buffer has a positive length, is echoed, matches
  neither terminator and is no read error: after any number of them the loop is still
  reading, with the next read. The rest of the line is then read as a line of its own:
  it is echoed, and it ends the read loop when it is a bare CR LF or a bare LF, which
  is what a line leaves that has a multiple of \<open>BUF_SIZE - 1\<close> bytes in front of its
  terminator; otherwise the loop goes on with the next line.\<close>

theorem C10_overlong_line_is_read_in_chunks:
  assumes "list_all full_capacity_chunk chunks"
  shows "read_loop es (chunks @ rest) w =
           read_loop es rest
             (w\<lparr>trace := trace w @
                   concat (map (\<lambda>r. [Call SSL_get_shutdown, Call (BIO_get_line BUF_SIZE),
                                      Fwrite (in_buf r)]) chunks),
                queue := queue w @ concat (map read_raised chunks)\<rparr>) \<and>
         read_exit chunks = NeedInput \<and>
         list_all (\<lambda>r. 0 < nbytes_read r \<and> \<not> strcmp_eq (in_buf r) [CR, LF] \<and>
                        \<not> strcmp_eq (in_buf r) [LF]) chunks \<and>
         (get_line_contract l \<and> 0 < nbytes_read l \<and>
          (shutdown_flags l AND SSL_RECEIVED_SHUTDOWN) \<noteq> SSL_RECEIVED_SHUTDOWN \<longrightarrow>
            read_exit (chunks @ l # later) =
              (if in_buf l = [CR, LF] \<or> in_buf l = [LF] then Finished else read_exit later) \<and>
            read_events es (chunks @ l # later) =
              concat (map (\<lambda>r. [Call SSL_get_shutdown, Call (BIO_get_line BUF_SIZE),
                                 Fwrite (in_buf r)]) chunks) @
              [Call SSL_get_shutdown, Call (BIO_get_line BUF_SIZE), Fwrite (in_buf l)] @
              (if in_buf l = [CR, LF] \<or> in_buf l = [LF] then [] else read_events es later))"
proof -
  note a = full_chunks_read_through[OF assms, of es rest w]
  have b: "read_exit (chunks @ l # later) =
              (if in_buf l = [CR, LF] \<or> in_buf l = [LF] then Finished else read_exit later) \<and>
           read_events es (chunks @ l # later) =
              concat (map (\<lambda>r. [Call SSL_get_shutdown, Call (BIO_get_line BUF_SIZE),
                                 Fwrite (in_buf r)]) chunks) @
              [Call SSL_get_shutdown, Call (BIO_get_line BUF_SIZE), Fwrite (in_buf l)] @
              (if in_buf l = [CR, LF] \<or> in_buf l = [LF] then [] else read_events es later)"
    if l: "get_line_contract l \<and> 0 < nbytes_read l \<and>
           (shutdown_flags l AND SSL_RECEIVED_SHUTDOWN) \<noteq> SSL_RECEIVED_SHUTDOWN"
  proof -
    from l have c: "get_line_contract l" and p: "0 < nbytes_read l"
      and f: "(shutdown_flags l AND SSL_RECEIVED_SHUTDOWN) \<noteq> SSL_RECEIVED_SHUTDOWN"
      by simp_all
    note tm = rest_of_line_terminator[OF c p]
    have x: "read_exit (l # later) =
               (if in_buf l = [CR, LF] \<or> in_buf l = [LF] then Finished else read_exit later)"
      using p f by (simp add: read_exit_Cons tm)
    have e: "read_events es (l # later) =
               [Call SSL_get_shutdown, Call (BIO_get_line BUF_SIZE), Fwrite (in_buf l)] @
               (if in_buf l = [CR, LF] \<or> in_buf l = [LF] then [] else read_events es later)"
      using p f by (simp add: read_events_Cons tm)
    from full_chunks_read_through[OF assms, of None "l # later" init]
    have "read_exit (chunks @ l # later) = read_exit (l # later)"
      unfolding read_exit_def by (simp only: read_loop_exit)
    with x have x': "read_exit (chunks @ l # later) =
              (if in_buf l = [CR, LF] \<or> in_buf l = [LF] then Finished else read_exit later)"
      by simp
    let ?w = "init\<lparr>trace := trace init @
                   concat (map (\<lambda>r. [Call SSL_get_shutdown, Call (BIO_get_line BUF_SIZE),
                                      Fwrite (in_buf r)]) chunks),
                queue := queue init @ concat (map read_raised chunks)\<rparr>"
    from full_chunks_read_through[OF assms, of es "l # later" init]
    have s: "read_loop es (chunks @ l # later) init = read_loop es (l # later) ?w"
      by (rule conjunct1)
    have "read_events es (chunks @ l # later) = trace (snd (read_loop es (l # later) ?w))"
      unfolding read_events_def[of es "chunks @ l # later"] by (simp only: s)
    also have "\<dots> = trace ?w @ read_events es (l # later)"
      by (rule read_loop_trace)
    also have "trace ?w =
            concat (map (\<lambda>r. [Call SSL_get_shutdown, Call (BIO_get_line BUF_SIZE),
                               Fwrite (in_buf r)]) chunks)"
      by (simp add: init_def)
    finally have "read_events es (chunks @ l # later) =
            concat (map (\<lambda>r. [Call SSL_get_shutdown, Call (BIO_get_line BUF_SIZE),
                               Fwrite (in_buf r)]) chunks) @ read_events es (l # later)" .
    with e have e': "read_events es (chunks @ l # later) =
              concat (map (\<lambda>r. [Call SSL_get_shutdown, Call (BIO_get_line BUF_SIZE),
                                 Fwrite (in_buf r)]) chunks) @
              [Call SSL_get_shutdown, Call (BIO_get_line BUF_SIZE), Fwrite (in_buf l)] @
              (if in_buf l = [CR, LF] \<or> in_buf l = [LF] then [] else read_events es later)"
      by simp
    from x' e' show ?thesis by (rule conjI)
  qed
  from a b show ?thesis by blast
qed

theorem C10_witness:
  "list_all full_capacity_chunk [chunk_of_a, chunk_of_a] \<and>
   get_line_contract client_newline \<and> 0 < nbytes_read client_newline \<and>
   (shutdown_flags client_newline AND SSL_RECEIVED_SHUTDOWN) \<noteq> SSL_RECEIVED_SHUTDOWN \<and>
   read_exit [chunk_of_a, chunk_of_a] = NeedInput \<and>
   read_exit ([chunk_of_a, chunk_of_a] @ client_newline # []) = Finished \<and>
   read_events (Some Stderr) ([chunk_of_a, chunk_of_a] @ client_newline # []) =
     [Call SSL_get_shutdown, Call (BIO_get_line BUF_SIZE), Fwrite (in_buf chunk_of_a),
      Call SSL_get_shutdown, Call (BIO_get_line BUF_SIZE), Fwrite (in_buf chunk_of_a),
      Call SSL_get_shutdown, Call (BIO_get_line BUF_SIZE), Fwrite [LF]]"
proof -
  have h: "list_all full_capacity_chunk [chunk_of_a, chunk_of_a]"
    by (simp add: full_chunk_of_a)
  have c: "get_line_contract client_newline" "0 < nbytes_read client_newline"
    "(shutdown_flags client_newline AND SSL_RECEIVED_SHUTDOWN) \<noteq> SSL_RECEIVED_SHUTDOWN"
    by (simp_all add: get_line_contract_def client_newline_def SSL_RECEIVED_SHUTDOWN_def)
  have b: "in_buf client_newline = [LF]" by (simp add: client_newline_def)
  note T = C10_overlong_line_is_read_in_chunks[OF h,
      where es="Some Stderr" and l=client_newline and later="[]" and rest="[]" and w=init]
  from T have n: "read_exit [chunk_of_a, chunk_of_a] = NeedInput" by blast
  from T c have x: "read_exit ([chunk_of_a, chunk_of_a] @ client_newline # []) = Finished"
    by (simp add: b)
  from T c have e: "read_events (Some Stderr) ([chunk_of_a, chunk_of_a] @ client_newline # []) =
     [Call SSL_get_shutdown, Call (BIO_get_line BUF_SIZE), Fwrite (in_buf chunk_of_a),
      Call SSL_get_shutdown, Call (BIO_get_line BUF_SIZE), Fwrite (in_buf chunk_of_a),
      Call SSL_get_shutdown, Call (BIO_get_line BUF_SIZE), Fwrite [LF]]"
    by (simp add: b)
  from h c n x e show ?thesis by blast
qed

theorem C10_counterexample:
  "full_capacity_chunk chunk_of_a \<and>
   LF \<notin> set (in_buf chunk_of_a) \<and>
   int BUF_SIZE < nbytes_read chunk_of_a +
     nbytes_read (client_newline\<lparr>nbytes_read := 2, in_buf := [CR, LF]\<rparr>) \<and>
   fst (read_loop (Some Stderr)
          [chunk_of_a, client_newline\<lparr>nbytes_read := 2, in_buf := [CR, LF]\<rparr>] init) = Finished \<and>
   fst (handle_accepted_connection (Some Stderr)
          (good_handler\<lparr>reads := [chunk_of_a, client_newline\<lparr>nbytes_read := 2, in_buf := [CR, LF]\<rparr>]\<rparr>)
          init) = Return 0 \<and>
   BIO_write response response_length \<in>
     set (calls (trace (snd (handle_accepted_connection (Some Stderr)
          (good_handler\<lparr>reads := [chunk_of_a, client_newline\<lparr>nbytes_read := 2, in_buf := [CR, LF]\<rparr>]\<rparr>)
          init))))"
proof -
  let ?l = "client_newline\<lparr>nbytes_read := 2, in_buf := [CR, LF]\<rparr>"
  let ?E = "good_handler\<lparr>reads := [chunk_of_a, ?l]\<rparr>"
  have a: "LF \<notin> set (in_buf chunk_of_a)" by (simp add: chunk_of_a_def LF_def)
  have b: "int BUF_SIZE < nbytes_read chunk_of_a + nbytes_read ?l"
    by (simp add: chunk_of_a_def BUF_SIZE_def)
  have l: "read_exit [?l] = Finished" "read_errors [?l] = []"
    by (simp_all add: read_exit_Cons read_errors_Cons client_newline_def SSL_RECEIVED_SHUTDOWN_def
        strcmp_eq_def c_str_def CR_def LF_def NUL_def)
  have e: "read_exit [chunk_of_a, ?l] = Finished" "read_errors [chunk_of_a, ?l] = []"
    by (simp_all only: chunk_of_a_read l)
  have c: "fst (read_loop (Some Stderr) [chunk_of_a, ?l] init) = Finished"
    by (simp only: read_loop_exit e)
  have r: "fst (handle_accepted_connection (Some Stderr) ?E init) = Return 0"
    by (simp add: handler_fst good_handler_def e response_length_value)
  have w: "BIO_write response response_length \<in>
     set (calls (trace (snd (handle_accepted_connection (Some Stderr) ?E init))))"
    by (rule handler_writes_after_reading) (simp_all add: good_handler_def e)
  from full_chunk_of_a a b c r w show ?thesis by blast
qed






text \<open>C9: when a pass of the accept loop is over, the error queue is empty, and so it
  is when the next connection is taken up. Whatever the next pass prints of the error
  queue was raised by a call of that pass; the handler, for its part, clears the queue
  before its first call into the channel, so that it does the same whatever the queue
  held.\<close>

theorem C9_no_diagnostic_leaks_into_the_next_connection:
  assumes fin: "fst (iteration es port cK w) = Return n"
  shows "queue (snd (iteration es port cK w)) = [] \<and>
         accept_loop es port (cK # cK1 # cs) w =
           accept_loop es port (cK1 # cs) (snd (iteration es port cK w)) \<and>
         (\<exists>evs. trace (snd (iteration es port cK1 (snd (iteration es port cK w)))) =
                  trace (snd (iteration es port cK w)) @ evs \<and>
                set (printed_errors evs) \<subseteq> set (conn_raised cK1)) \<and>
         fst (handle_accepted_connection es (handler cK1) (w'\<lparr>queue := q\<rparr>)) =
           fst (handle_accepted_connection es (handler cK1) w') \<and>
         trace (snd (handle_accepted_connection es (handler cK1) (w'\<lparr>queue := q\<rparr>))) =
           trace (snd (handle_accepted_connection es (handler cK1) w'))"
proof -
  have q: "queue (snd (iteration es port cK w)) = []"
    using fin by (rule iteration_returns_empty_queue)
  have l: "accept_loop es port (cK # cK1 # cs) w =
           accept_loop es port (cK1 # cs) (snd (iteration es port cK w))"
    using fin by (rule accept_loop_step)
  from iteration_reports_own_errors[of es port cK1 "snd (iteration es port cK w)"] q
  have e: "\<exists>evs. trace (snd (iteration es port cK1 (snd (iteration es port cK w)))) =
                  trace (snd (iteration es port cK w)) @ evs \<and>
                set (printed_errors evs) \<subseteq> set (conn_raised cK1)"
    by simp
  from q l e handler_clears_queue_first[where es=es and env="handler cK1" and w=w' and q=q]
  show ?thesis by blast
qed

theorem C9_witness:
  "fst (iteration (Some Stderr) (Some ''4433'')
          (good_conn\<lparr>handler := good_handler\<lparr>ssl_shutdown := (- 1, [OsslError 1])\<rparr>\<rparr>) init) = Return 0 \<and>
   queue (snd (iteration (Some Stderr) (Some ''4433'')
          (good_conn\<lparr>handler := good_handler\<lparr>ssl_shutdown := (- 1, [OsslError 1])\<rparr>\<rparr>) init)) = []"
proof -
  have h: "fst (iteration (Some Stderr) (Some ''4433'')
          (good_conn\<lparr>handler := good_handler\<lparr>ssl_shutdown := (- 1, [OsslError 1])\<rparr>\<rparr>) init) = Return 0"
    by (rule iteration_completes)
      (simp_all add: good_conn_def good_handler_def read_exit_client_newline)
  from C9_no_diagnostic_leaks_into_the_next_connection[OF h] h show ?thesis by blast
qed




text \<open>C7, as the code has it: when the set-up calls have all succeeded, the server
  looks at the error queue before it enters the accept loop. An empty queue lets it
  enter the loop. Any entry makes it report an unexpected set-up error and return 1
  without entering the loop; the entries are printed and cleared in its cleanup. After
  every pass of the loop that ends, the queue is empty and the loop goes on; on a failed
  accept the pass itself prints and clears what was pending.\<close>

theorem C7_residual_state_before_and_after_a_pass:
  assumes ctx: "fst (ctx_new env)"
    and key: "0 < fst (use_PrivateKey_file env)"
    and chain: "0 < fst (use_certificate_chain_file env)"
    and matches: "0 < fst (check_private_key env)"
    and bio: "fst (new_accept env)"
    and bound: "0 < fst (do_bind env)"
  shows "(setup_residual env \<noteq> [] \<longrightarrow>
            fst (run_tls_server port kf cf es env conns w) = Return 1 \<and>
            queue (snd (run_tls_server port kf cf es env conns w)) = [] \<and>
            trace (snd (run_tls_server port kf cf es env conns w)) =
              trace w @
              [Call SSL_CTX_new, Call (SSL_CTX_use_PrivateKey_file kf),
               Call (SSL_CTX_use_certificate_chain_file cf),
               Call SSL_CTX_check_private_key, Call SSL_CTX_set_mode, Call (BIO_new_accept port),
               Call BIO_do_accept] @
              report_events es ''Unexpected error during TLS server setup\<newline>'' [] @
              [Call (BIO_free_all accept_bio), Call SSL_CTX_free] @
              drain_events es (setup_residual env @ free_accept_bio env @ ctx_free env)) \<and>
         (setup_residual env = [] \<longrightarrow>
            run_tls_server port kf cf es env conns w =
              accept_loop es port conns (listening port kf cf w) \<and>
            queue (listening port kf cf w) = []) \<and>
         (fst (iteration es port c w') = Return n \<longrightarrow>
            queue (snd (iteration es port c w')) = [] \<and>
            accept_loop es port (c # cs) w' =
              accept_loop es port cs (snd (iteration es port c w'))) \<and>
         (fst (do_accept c) \<le> 0 \<longrightarrow>
            fst (iteration es port c w') = Return 0 \<and>
            trace (snd (iteration es port c w')) =
              trace w' @
              [Printf ''\<newline>'' [], Printf ''*** Listening on port %s\<newline>'' [Str port],
               Printf ''\<newline>'' [], Call BIO_do_accept] @
              report_events es ''Error when trying to accept connection\<newline>'' [] @
              (let residual = queue w' @ snd (do_accept c)
               in if residual = [] then [] else drain_events es residual))"
proof -
  note a = run_residual[OF assms, of port kf cf es conns w]
  note b = run_enters_loop[OF assms, of port kf cf es conns w]
  note c1 = iteration_returns_empty_queue[of es port c w' n]
  note c2 = accept_loop_step[of es port c w' n cs]
  note d = iteration_accept_failed(1,3)[of c es port w']
  have e: "queue (listening port kf cf w) = []" by simp
  from a b c1 c2 d e show ?thesis by blast
qed

theorem C7_witness:
  "fst (ctx_new good_setup) \<and> 0 < fst (use_PrivateKey_file good_setup) \<and>
   0 < fst (use_certificate_chain_file good_setup) \<and> 0 < fst (check_private_key good_setup) \<and>
   fst (new_accept good_setup) \<and> 0 < fst (do_bind good_setup) \<and>
   setup_residual good_setup = [] \<and>
   run_tls_server (Some ''4433'') (Some ''key.pem'') (Some ''cert.pem'') (Some Stderr)
     good_setup [good_conn] init =
     accept_loop (Some Stderr) (Some ''4433'') [good_conn]
       (listening (Some ''4433'') (Some ''key.pem'') (Some ''cert.pem'') init) \<and>
   fst (do_accept (good_conn\<lparr>do_accept := (- 1, [OsslError 4])\<rparr>)) \<le> 0 \<and>
   fst (iteration (Some Stderr) (Some ''4433'') (good_conn\<lparr>do_accept := (- 1, [OsslError 4])\<rparr>) init) =
     Return 0 \<and>
   queue (snd (iteration (Some Stderr) (Some ''4433'')
                 (good_conn\<lparr>do_accept := (- 1, [OsslError 4])\<rparr>) init)) = []"
proof -
  have h: "fst (ctx_new good_setup)" "0 < fst (use_PrivateKey_file good_setup)"
    "0 < fst (use_certificate_chain_file good_setup)" "0 < fst (check_private_key good_setup)"
    "fst (new_accept good_setup)" "0 < fst (do_bind good_setup)"
    by (simp_all add: good_setup_def)
  have r: "setup_residual good_setup = []" by (simp add: setup_residual_def good_setup_def)
  have a: "fst (do_accept (good_conn\<lparr>do_accept := (- 1, [OsslError 4])\<rparr>)) \<le> 0" by simp
  note T = C7_residual_state_before_and_after_a_pass[OF h,
      where port="Some ''4433''" and kf="Some ''key.pem''" and cf="Some ''cert.pem''"
        and es="Some Stderr" and conns="[good_conn]" and w=init
        and c="good_conn\<lparr>do_accept := (- 1, [OsslError 4])\<rparr>" and w'=init and n=0 and cs="[]"]
  from T r a h show ?thesis by blast
qed

theorem C7_counterexample:
  "fst (ctx_new (good_setup\<lparr>do_bind := (1, [OsslError 7])\<rparr>)) \<and>
   0 < fst (use_PrivateKey_file (good_setup\<lparr>do_bind := (1, [OsslError 7])\<rparr>)) \<and>
   0 < fst (use_certificate_chain_file (good_setup\<lparr>do_bind := (1, [OsslError 7])\<rparr>)) \<and>
   0 < fst (check_private_key (good_setup\<lparr>do_bind := (1, [OsslError 7])\<rparr>)) \<and>
   fst (new_accept (good_setup\<lparr>do_bind := (1, [OsslError 7])\<rparr>)) \<and>
   0 < fst (do_bind (good_setup\<lparr>do_bind := (1, [OsslError 7])\<rparr>)) \<and>
   run_tls_server (Some ''4433'') (Some ''key.pem'') (Some ''cert.pem'') (Some Stderr)
     (good_setup\<lparr>do_bind := (1, [OsslError 7])\<rparr>) [good_conn] init =
     (Return 1,
      \<lparr>trace =
         [Call SSL_CTX_new, Call (SSL_CTX_use_PrivateKey_file (Some ''key.pem'')),
          Call (SSL_CTX_use_certificate_chain_file (Some ''cert.pem'')),
          Call SSL_CTX_check_private_key, Call SSL_CTX_set_mode,
          Call (BIO_new_accept (Some ''4433'')), Call BIO_do_accept,
          Fprintf Stderr ''Unexpected error during TLS server setup\<newline>'' [],
          Call (BIO_free_all accept_bio), Call SSL_CTX_free,
          Fprintf Stderr ''Errors from the OpenSSL error queue:\<newline>'' [],
          ERR_print_errors_fp Stderr [OsslError 7]],
       queue = []\<rparr>)"
proof -
  let ?E = "good_setup\<lparr>do_bind := (1, [OsslError 7])\<rparr>"
  have h: "fst (ctx_new ?E)" "0 < fst (use_PrivateKey_file ?E)"
    "0 < fst (use_certificate_chain_file ?E)" "0 < fst (check_private_key ?E)"
    "fst (new_accept ?E)" "0 < fst (do_bind ?E)"
    by (simp_all add: good_setup_def)
  have r: "setup_residual ?E \<noteq> []" by (simp add: setup_residual_def)
  let ?R = "run_tls_server (Some ''4433'') (Some ''key.pem'') (Some ''cert.pem'') (Some Stderr)
     ?E [good_conn] init"
  note a = run_residual[OF h r, of "Some ''4433''" "Some ''key.pem''" "Some ''cert.pem''"
      "Some Stderr" "[good_conn]" init]
  have t: "trace (snd ?R) =
         [Call SSL_CTX_new, Call (SSL_CTX_use_PrivateKey_file (Some ''key.pem'')),
          Call (SSL_CTX_use_certificate_chain_file (Some ''cert.pem'')),
          Call SSL_CTX_check_private_key, Call SSL_CTX_set_mode,
          Call (BIO_new_accept (Some ''4433'')), Call BIO_do_accept,
          Fprintf Stderr ''Unexpected error during TLS server setup\<newline>'' [],
          Call (BIO_free_all accept_bio), Call SSL_CTX_free,
          Fprintf Stderr ''Errors from the OpenSSL error queue:\<newline>'' [],
          ERR_print_errors_fp Stderr [OsslError 7]]"
    by (simp only: a)
      (simp add: init_def report_events_def drain_events_def setup_residual_def good_setup_def)
  have "snd ?R = \<lparr>trace = trace (snd ?R), queue = queue (snd ?R)\<rparr>" by simp
  then have "?R = (Return 1,
      \<lparr>trace =
         [Call SSL_CTX_new, Call (SSL_CTX_use_PrivateKey_file (Some ''key.pem'')),
          Call (SSL_CTX_use_certificate_chain_file (Some ''cert.pem'')),
          Call SSL_CTX_check_private_key, Call SSL_CTX_set_mode,
          Call (BIO_new_accept (Some ''4433'')), Call BIO_do_accept,
          Fprintf Stderr ''Unexpected error during TLS server setup\<newline>'' [],
          Call (BIO_free_all accept_bio), Call SSL_CTX_free,
          Fprintf Stderr ''Errors from the OpenSSL error queue:\<newline>'' [],
          ERR_print_errors_fp Stderr [OsslError 7]],
       queue = []\<rparr>)"
    using a(1) by (simp only: t a(2)) (rule prod_eqI, simp_all)
  with h show ?thesis by blast
qed

text \<open>C1: the program run with two arguments, a port and a key file but no certificate
  chain, which the usage line does not allow. \<open>main\<close> lets \<open>argc == 3\<close> through: it
  prints no usage line and calls \<open>run_tls_server\<close> with \<open>argv[3]\<close>, which is \<open>NULL\<close>,
  as the certificate file; the context is created and the key file is loaded. Where the
  library then refuses the \<open>NULL\<close> file name, what is printed is the message about the
  certificate chain.\<close>

theorem C1_two_arguments_reach_the_server:
  "(\<forall>env conns w.
      main [''tls-server'', ''4433'', ''key.pem''] env conns w =
        (case run_tls_server (Some ''4433'') (Some ''key.pem'') None (Some Stderr) env conns w of
           (Return err, w1) \<Rightarrow>
             if err \<noteq> 0
             then (Return 1, emit (Fprintf Stderr ''TLS communication failed\<newline>'' []) w1)
             else (Return 0, emit (Fprintf Stderr ''TLS communication succeeded\<newline>'' []) w1)
         | (Abort, w1) \<Rightarrow> (Abort, w1)
         | (Killed, w1) \<Rightarrow> (Killed, w1)
         | (Waiting, w1) \<Rightarrow> (Waiting, w1))) \<and>
   main [''tls-server'', ''4433'', ''key.pem'']
     (good_setup\<lparr>use_certificate_chain_file := (0, [])\<rparr>) [] init =
     (Return 1,
      \<lparr>trace =
         [Call SSL_CTX_new, Call (SSL_CTX_use_PrivateKey_file (Some ''key.pem'')),
          Call (SSL_CTX_use_certificate_chain_file None),
          Fprintf Stderr ''Could not load server certificate chain from file %s\<newline>''
            [Str None],
          Call SSL_CTX_free,
          Fprintf Stderr ''TLS communication failed\<newline>'' []],
       queue = []\<rparr>) \<and>
   main [''tls-server'', ''4433''] good_setup [] init =
     (Return 1,
      \<lparr>trace =
         [Fprintf Stderr ''Usage: %s PORT SERVER_KEYPAIR_FILE SERVER_CERT_CHAIN_FILE\<newline>''
            [Str (Some ''tls-server'')]],
       queue = []\<rparr>)"
proof -
  let ?E = "good_setup\<lparr>use_certificate_chain_file := (0, [])\<rparr>"
  let ?R = "run_tls_server (Some ''4433'') (Some ''key.pem'') None (Some Stderr) ?E [] init"
  have c: "fst (ctx_new ?E)" by (simp add: good_setup_def)
  have b: "fst (use_PrivateKey_file ?E) \<le> 0 \<or> fst (use_certificate_chain_file ?E) \<le> 0 \<or>
     fst (check_private_key ?E) \<le> 0" by simp
  have f: "fst ?R = Return 1" by (rule run_context_failed_fst[OF c b])
  have t: "trace (snd ?R) =
         [Call SSL_CTX_new, Call (SSL_CTX_use_PrivateKey_file (Some ''key.pem'')),
          Call (SSL_CTX_use_certificate_chain_file None),
          Fprintf Stderr ''Could not load server certificate chain from file %s\<newline>''
            [Str None],
          Call SSL_CTX_free]"
    by (simp only: run_context_failed_trace[OF c b])
      (simp add: init_def report_events_def good_setup_def)
  have q: "queue (snd ?R) = []"
    using f by (simp add: run_tls_server_def Let_def good_setup_def)
  have "snd ?R = \<lparr>trace = trace (snd ?R), queue = queue (snd ?R)\<rparr>" by simp
  then have r: "?R = (Return 1,
      \<lparr>trace =
         [Call SSL_CTX_new, Call (SSL_CTX_use_PrivateKey_file (Some ''key.pem'')),
          Call (SSL_CTX_use_certificate_chain_file None),
          Fprintf Stderr ''Could not load server certificate chain from file %s\<newline>''
            [Str None],
          Call SSL_CTX_free],
       queue = []\<rparr>)"
    using f by (simp only: t q) (rule prod_eqI, simp_all)
  have two: "main [''tls-server'', ''4433'', ''key.pem''] ?E [] init =
     (Return 1,
      \<lparr>trace =
         [Call SSL_CTX_new, Call (SSL_CTX_use_PrivateKey_file (Some ''key.pem'')),
          Call (SSL_CTX_use_certificate_chain_file None),
          Fprintf Stderr ''Could not load server certificate chain from file %s\<newline>''
            [Str None],
          Call SSL_CTX_free,
          Fprintf Stderr ''TLS communication failed\<newline>'' []],
       queue = []\<rparr>)"
    by (simp only: main_two_arguments r) (simp add: emit_def)
  have one: "main [''tls-server'', ''4433''] good_setup [] init =
     (Return 1,
      \<lparr>trace =
         [Fprintf Stderr ''Usage: %s PORT SERVER_KEYPAIR_FILE SERVER_CERT_CHAIN_FILE\<newline>''
            [Str (Some ''tls-server'')]],
       queue = []\<rparr>)"
    by (simp add: main_usage usage_def argv_at_def emit_def init_def)
  from main_two_arguments two one show ?thesis by blast
qed

text \<open>C5: the context is built by loading the key, then the certificate chain, then by
  checking that they match, each step only after the one before has succeeded. The
  first step that fails is reported with a message of its own, the context is freed,
  \<open>run_tls_server\<close> returns 1 and the process exits with 1. No accept socket is created
  and no bind is attempted: the only calls are those of the steps and \<open>SSL_CTX_free\<close>.\<close>

theorem C5_context_construction_order:
  assumes ctx: "fst (ctx_new env)"
    and bad: "fst (use_PrivateKey_file env) \<le> 0 \<or> fst (use_certificate_chain_file env) \<le> 0 \<or>
              fst (check_private_key env) \<le> 0"
  shows "fst (run_tls_server port kf cf es env conns w) = Return 1 \<and>
         fst (main [prog, p, k, c] env conns w) = Return 1 \<and>
         trace (snd (run_tls_server port kf cf es env conns w)) =
           trace w @
           Call SSL_CTX_new # Call (SSL_CTX_use_PrivateKey_file kf) #
           (if fst (use_PrivateKey_file env) \<le> 0
            then report_events es ''Could not load server keypair from file %s\<newline>'' [Str kf]
            else Call (SSL_CTX_use_certificate_chain_file cf) #
              (if fst (use_certificate_chain_file env) \<le> 0
               then report_events es
                      ''Could not load server certificate chain from file %s\<newline>'' [Str cf]
               else Call SSL_CTX_check_private_key #
                      report_events es
                        ''Server keypair does not match server certificate\<newline>'' [])) @
           [Call SSL_CTX_free] @
           (let residual =
                  (if fst (use_PrivateKey_file env) \<le> 0
                   then snd (ctx_new env) @ snd (use_PrivateKey_file env)
                   else snd (use_certificate_chain_file env) @
                     (if fst (use_certificate_chain_file env) \<le> 0 then []
                      else snd (check_private_key env))) @
                  ctx_free env
            in if residual = [] then [] else drain_events es residual) \<and>
         calls (trace (snd (run_tls_server port kf cf es env conns w))) =
           calls (trace w) @
           SSL_CTX_new # SSL_CTX_use_PrivateKey_file kf #
           (if fst (use_PrivateKey_file env) \<le> 0 then []
            else SSL_CTX_use_certificate_chain_file cf #
              (if fst (use_certificate_chain_file env) \<le> 0 then []
               else [SSL_CTX_check_private_key])) @
           [SSL_CTX_free]"
proof -
  note f = run_context_failed_fst[OF ctx bad]
  note t = run_context_failed_trace[OF ctx bad, of port kf cf es conns w]
  have m: "fst (main [prog, p, k, c] env conns w) = Return 1"
    by (rule main_exit_code) (rule f)
  have cs: "calls (trace (snd (run_tls_server port kf cf es env conns w))) =
           calls (trace w) @
           SSL_CTX_new # SSL_CTX_use_PrivateKey_file kf #
           (if fst (use_PrivateKey_file env) \<le> 0 then []
            else SSL_CTX_use_certificate_chain_file cf #
              (if fst (use_certificate_chain_file env) \<le> 0 then []
               else [SSL_CTX_check_private_key])) @
           [SSL_CTX_free]"
    by (simp add: t Let_def)
  from f[of port kf cf es conns w] m t cs show ?thesis by blast
qed

theorem C5_witness:
  "fst (ctx_new (good_setup\<lparr>check_private_key := (0, [OsslError 11])\<rparr>)) \<and>
   fst (check_private_key (good_setup\<lparr>check_private_key := (0, [OsslError 11])\<rparr>)) \<le> 0 \<and>
   fst (main [''tls-server'', ''4433'', ''key.pem'', ''cert.pem'']
          (good_setup\<lparr>check_private_key := (0, [OsslError 11])\<rparr>) [good_conn] init) = Return 1 \<and>
   trace (snd (run_tls_server (Some ''4433'') (Some ''key.pem'') (Some ''cert.pem'') (Some Stderr)
                 (good_setup\<lparr>check_private_key := (0, [OsslError 11])\<rparr>) [good_conn] init)) =
     [Call SSL_CTX_new, Call (SSL_CTX_use_PrivateKey_file (Some ''key.pem'')),
      Call (SSL_CTX_use_certificate_chain_file (Some ''cert.pem'')),
      Call SSL_CTX_check_private_key,
      Fprintf Stderr ''Server keypair does not match server certificate\<newline>'' [],
      Call SSL_CTX_free,
      Fprintf Stderr ''Errors from the OpenSSL error queue:\<newline>'' [],
      ERR_print_errors_fp Stderr [OsslError 11]]"
proof -
  let ?E = "good_setup\<lparr>check_private_key := (0, [OsslError 11])\<rparr>"
  have c: "fst (ctx_new ?E)" by (simp add: good_setup_def)
  have k: "fst (check_private_key ?E) \<le> 0" by simp
  then have b: "fst (use_PrivateKey_file ?E) \<le> 0 \<or> fst (use_certificate_chain_file ?E) \<le> 0 \<or>
     fst (check_private_key ?E) \<le> 0" by blast
  note T = C5_context_construction_order[OF c b, where port="Some ''4433''"
      and kf="Some ''key.pem''" and cf="Some ''cert.pem''" and es="Some Stderr"
      and conns="[good_conn]" and w=init and prog="''tls-server''" and p="''4433''"
      and k="''key.pem''" and c="''cert.pem''"]
  from T have m: "fst (main [''tls-server'', ''4433'', ''key.pem'', ''cert.pem'']
          ?E [good_conn] init) = Return 1" by blast
  from T have "trace (snd (run_tls_server (Some ''4433'') (Some ''key.pem'') (Some ''cert.pem'')
                 (Some Stderr) ?E [good_conn] init)) =
     [Call SSL_CTX_new, Call (SSL_CTX_use_PrivateKey_file (Some ''key.pem'')),
      Call (SSL_CTX_use_certificate_chain_file (Some ''cert.pem'')),
      Call SSL_CTX_check_private_key,
      Fprintf Stderr ''Server keypair does not match server certificate\<newline>'' [],
      Call SSL_CTX_free,
      Fprintf Stderr ''Errors from the OpenSSL error queue:\<newline>'' [],
      ERR_print_errors_fp Stderr [OsslError 11]]"
    by (simp add: init_def report_events_def drain_events_def good_setup_def)
  with c k m show ?thesis by blast
qed

end
